theory Spec2Isabelle
  imports Main
begin

section \<open>Values of the Python program\<close>

text \<open>
  The handler of \<^verbatim>\<open>src/main.py\<close> works on values decoded from JSON: the webhook
  body, the stored dialog state and the agent registry. They are dynamically typed, and
  every operation the source applies to them can raise when the value has another type
  than the one expected. A Python \<^verbatim>\<open>str\<close> is modelled by its UTF-8 bytes, a decoded JSON
  object by its items in insertion order (the keys of a decoded object are strings and
  pairwise distinct), \<^verbatim>\<open>None\<close> by \<open>JNull\<close>. JSON numbers are the integers.
\<close>

datatype json =
    JNull
  | JBool bool
  | JInt int
  | JStr string
  | JList "json list"
  | JObj "(string \<times> json) list"

text \<open>
  Exceptions. The source raises none itself; they come from the operations on values
  (\<open>AttributeError\<close>, \<open>TypeError\<close>, \<open>KeyError\<close>, \<open>IndexError\<close>) and from libraries and
  collaborators (\<open>Failure\<close>, carrying \<^verbatim>\<open>str(e)\<close>).
\<close>

datatype exn =
    AttributeError string string
  | TypeError string
  | KeyError string
  | IndexError string
  | Failure string

fun type_name :: "json \<Rightarrow> string" where
  "type_name JNull = ''NoneType''"
| "type_name (JBool _) = ''bool''"
| "type_name (JInt _) = ''int''"
| "type_name (JStr _) = ''str''"
| "type_name (JList _) = ''list''"
| "type_name (JObj _) = ''dict''"

definition quoted :: "string \<Rightarrow> string" where
  "quoted s = [CHR 0x27] @ s @ [CHR 0x27]"

text \<open>Truth value of a Python object, as \<^verbatim>\<open>if x\<close> and \<^verbatim>\<open>not x\<close> test it.\<close>

fun py_truthy :: "json \<Rightarrow> bool" where
  "py_truthy JNull = False"
| "py_truthy (JBool b) = b"
| "py_truthy (JInt i) = (i \<noteq> 0)"
| "py_truthy (JStr s) = (s \<noteq> [])"
| "py_truthy (JList xs) = (xs \<noteq> [])"
| "py_truthy (JObj kvs) = (kvs \<noteq> [])"

text \<open>\<^verbatim>\<open>d.get(key, default)\<close> with a literal key.\<close>

definition py_get :: "json \<Rightarrow> string \<Rightarrow> json \<Rightarrow> exn + json" where
  "py_get d key dflt =
     (case d of
        JObj kvs \<Rightarrow> Inr (case map_of kvs key of Some v \<Rightarrow> v | None \<Rightarrow> dflt)
      | _ \<Rightarrow> Inl (AttributeError (type_name d) ''get''))"

text \<open>
  \<^verbatim>\<open>d.get(k, default)\<close> where the key is itself a decoded value: the attribute is looked up
  first, then the key is hashed (lists and dicts are unhashable); a key that is not a
  string is never among the keys of a decoded object.
\<close>

definition py_get_value :: "json \<Rightarrow> json \<Rightarrow> json \<Rightarrow> exn + json" where
  "py_get_value d k dflt =
     (case d of
        JObj kvs \<Rightarrow>
          (case k of
             JStr key \<Rightarrow> Inr (case map_of kvs key of Some v \<Rightarrow> v | None \<Rightarrow> dflt)
           | JList _ \<Rightarrow> Inl (TypeError (''unhashable type: '' @ quoted ''list''))
           | JObj _ \<Rightarrow> Inl (TypeError (''unhashable type: '' @ quoted ''dict''))
           | _ \<Rightarrow> Inr dflt)
      | _ \<Rightarrow> Inl (AttributeError (type_name d) ''get''))"

text \<open>\<^verbatim>\<open>needle in hay\<close> for strings: substring test.\<close>

fun str_contains :: "string \<Rightarrow> string \<Rightarrow> bool" where
  "str_contains needle [] = (needle = [])"
| "str_contains needle (c # cs) =
     (take (length needle) (c # cs) = needle \<or> str_contains needle cs)"

text \<open>\<^verbatim>\<open>key in x\<close> with a string on the left.\<close>

definition py_contains :: "json \<Rightarrow> string \<Rightarrow> exn + bool" where
  "py_contains x key =
     (case x of
        JObj kvs \<Rightarrow> Inr (key \<in> set (map fst kvs))
      | JList xs \<Rightarrow> Inr (JStr key \<in> set xs)
      | JStr s \<Rightarrow> Inr (str_contains key s)
      | _ \<Rightarrow> Inl (TypeError (''argument of type '' @ quoted (type_name x) @ '' is not iterable'')))"

text \<open>\<^verbatim>\<open>x[key]\<close> with a string key.\<close>

definition py_index :: "json \<Rightarrow> string \<Rightarrow> exn + json" where
  "py_index x key =
     (case x of
        JObj kvs \<Rightarrow> (case map_of kvs key of Some v \<Rightarrow> Inr v | None \<Rightarrow> Inl (KeyError key))
      | JList _ \<Rightarrow> Inl (TypeError ''list indices must be integers or slices, not str'')
      | JStr _ \<Rightarrow> Inl (TypeError (''string indices must be integers, not '' @ quoted ''str''))
      | _ \<Rightarrow> Inl (TypeError (quoted (type_name x) @ '' object is not subscriptable'')))"

text \<open>\<^verbatim>\<open>list(x.keys())[0]\<close>.\<close>

definition py_first_key :: "json \<Rightarrow> exn + json" where
  "py_first_key x =
     (case x of
        JObj [] \<Rightarrow> Inl (IndexError ''list index out of range'')
      | JObj ((k, _) # _) \<Rightarrow> Inr (JStr k)
      | _ \<Rightarrow> Inl (AttributeError (type_name x) ''keys''))"

text \<open>\<^verbatim>\<open>x.items()\<close>.\<close>

definition py_items :: "json \<Rightarrow> exn + (string \<times> json) list" where
  "py_items x =
     (case x of
        JObj kvs \<Rightarrow> Inr kvs
      | _ \<Rightarrow> Inl (AttributeError (type_name x) ''items''))"

text \<open>\<^verbatim>\<open>x + 1\<close>; a Python \<^verbatim>\<open>bool\<close> is an \<^verbatim>\<open>int\<close>.\<close>

definition py_add_one :: "json \<Rightarrow> exn + json" where
  "py_add_one x =
     (case x of
        JInt i \<Rightarrow> Inr (JInt (i + 1))
      | JBool b \<Rightarrow> Inr (JInt ((if b then 1 else 0) + 1))
      | JStr _ \<Rightarrow>
          Inl (TypeError (''can only concatenate str (not '' @ [CHR 0x22] @ ''int''
                 @ [CHR 0x22] @ '') to str''))
      | JList _ \<Rightarrow>
          Inl (TypeError (''can only concatenate list (not '' @ [CHR 0x22] @ ''int''
                 @ [CHR 0x22] @ '') to list''))
      | _ \<Rightarrow>
          Inl (TypeError (''unsupported operand type(s) for +: '' @ quoted (type_name x)
                 @ '' and '' @ quoted ''int'')))"

text \<open>\<^verbatim>\<open>x.startswith(p)\<close>.\<close>

definition py_startswith :: "json \<Rightarrow> string \<Rightarrow> exn + bool" where
  "py_startswith x p =
     (case x of
        JStr s \<Rightarrow> Inr (take (length p) s = p)
      | _ \<Rightarrow> Inl (AttributeError (type_name x) ''startswith''))"

text \<open>
  \<^verbatim>\<open>s.split(":", 1)\<close>: the string cut at the first colon, or the string alone when it
  has none; and \<^verbatim>\<open>xs[1]\<close> on the result.
\<close>

definition split_colon_once :: "string \<Rightarrow> string list" where
  "split_colon_once s =
     (case dropWhile (\<lambda>c. c \<noteq> CHR '':'') s of
        [] \<Rightarrow> [s]
      | _ # rest \<Rightarrow> [takeWhile (\<lambda>c. c \<noteq> CHR '':'') s, rest])"

definition list_index_1 :: "string list \<Rightarrow> exn + string" where
  "list_index_1 xs =
     (case xs of
        _ # y # _ \<Rightarrow> Inr y
      | _ \<Rightarrow> Inl (IndexError ''list index out of range''))"

text \<open>Decimal digits of an integer, as \<^verbatim>\<open>str\<close> prints it.\<close>

function digits_of :: "nat \<Rightarrow> string" where
  "digits_of n =
     (if n < 10 then [''0123456789'' ! n]
      else digits_of (n div 10) @ [''0123456789'' ! (n mod 10)])"
  by pat_completeness auto
termination
  by (relation "measure id") auto

definition str_of_int :: "int \<Rightarrow> string" where
  "str_of_int i = (if i < 0 then CHR ''-'' # digits_of (nat (- i)) else digits_of (nat i))"

declare digits_of.simps [simp del]

section \<open>Texts of the bot\<close>

text \<open>The string literals of the source, as UTF-8 bytes.\<close>

definition TEXT_NO_AGENT :: string where
  "TEXT_NO_AGENT =
     [CHR 0xE2, CHR 0x9D, CHR 0x8C] @ '' ''
     @ [CHR 0xD0, CHR 0x90, CHR 0xD0, CHR 0xB3, CHR 0xD0, CHR 0xB5]
     @ [CHR 0xD0, CHR 0xBD, CHR 0xD1, CHR 0x82] @ '' ''
     @ [CHR 0xD0, CHR 0xBD, CHR 0xD0, CHR 0xB5] @ '' ''
     @ [CHR 0xD0, CHR 0xB2, CHR 0xD1, CHR 0x8B, CHR 0xD0, CHR 0xB1]
     @ [CHR 0xD1, CHR 0x80, CHR 0xD0, CHR 0xB0, CHR 0xD0, CHR 0xBD] @ ''. ''
     @ [CHR 0xD0, CHR 0x98, CHR 0xD1, CHR 0x81, CHR 0xD0, CHR 0xBF]
     @ [CHR 0xD0, CHR 0xBE, CHR 0xD0, CHR 0xBB, CHR 0xD1, CHR 0x8C]
     @ [CHR 0xD0, CHR 0xB7, CHR 0xD1, CHR 0x83, CHR 0xD0, CHR 0xB9]
     @ [CHR 0xD1, CHR 0x82, CHR 0xD0, CHR 0xB5] @ '' /agents ''
     @ [CHR 0xD0, CHR 0xB4, CHR 0xD0, CHR 0xBB, CHR 0xD1, CHR 0x8F] @ '' ''
     @ [CHR 0xD0, CHR 0xB2, CHR 0xD1, CHR 0x8B, CHR 0xD0, CHR 0xB1]
     @ [CHR 0xD0, CHR 0xBE, CHR 0xD1, CHR 0x80, CHR 0xD0, CHR 0xB0] @ '' ''
     @ [CHR 0xD0, CHR 0xB0, CHR 0xD0, CHR 0xB3, CHR 0xD0, CHR 0xB5]
     @ [CHR 0xD0, CHR 0xBD, CHR 0xD1, CHR 0x82, CHR 0xD0, CHR 0xB0] @ ''.''"

definition TEXT_ERROR_PREFIX :: string where
  "TEXT_ERROR_PREFIX =
     [CHR 0xE2, CHR 0x9D, CHR 0x8C] @ '' ''
     @ [CHR 0xD0, CHR 0x9E, CHR 0xD1, CHR 0x88, CHR 0xD0, CHR 0xB8]
     @ [CHR 0xD0, CHR 0xB1, CHR 0xD0, CHR 0xBA, CHR 0xD0, CHR 0xB0] @ '': ''"

definition LABEL_NEW :: string where
  "LABEL_NEW =
     [CHR 0xF0, CHR 0x9F, CHR 0x86, CHR 0x95] @ '' ''
     @ [CHR 0xD0, CHR 0x9D, CHR 0xD0, CHR 0xBE, CHR 0xD0, CHR 0xB2]
     @ [CHR 0xD1, CHR 0x8B, CHR 0xD0, CHR 0xB9] @ '' ''
     @ [CHR 0xD0, CHR 0xB4, CHR 0xD0, CHR 0xB8, CHR 0xD0, CHR 0xB0]
     @ [CHR 0xD0, CHR 0xBB, CHR 0xD0, CHR 0xBE, CHR 0xD0, CHR 0xB3]"

definition LABEL_AGENTS :: string where
  "LABEL_AGENTS =
     [CHR 0xF0, CHR 0x9F, CHR 0xA4, CHR 0x96] @ '' ''
     @ [CHR 0xD0, CHR 0x90, CHR 0xD0, CHR 0xB3, CHR 0xD0, CHR 0xB5]
     @ [CHR 0xD0, CHR 0xBD, CHR 0xD1, CHR 0x82, CHR 0xD1, CHR 0x8B]"

definition LABEL_STATUS :: string where
  "LABEL_STATUS =
     [CHR 0xF0, CHR 0x9F, CHR 0x93, CHR 0x8A] @ '' ''
     @ [CHR 0xD0, CHR 0xA1, CHR 0xD1, CHR 0x82, CHR 0xD0, CHR 0xB0]
     @ [CHR 0xD1, CHR 0x82, CHR 0xD1, CHR 0x83, CHR 0xD1, CHR 0x81]"

definition LABEL_HELP :: string where
  "LABEL_HELP =
     [CHR 0xE2, CHR 0x9D, CHR 0x93] @ '' ''
     @ [CHR 0xD0, CHR 0x9F, CHR 0xD0, CHR 0xBE, CHR 0xD0, CHR 0xBC]
     @ [CHR 0xD0, CHR 0xBE, CHR 0xD1, CHR 0x89, CHR 0xD1, CHR 0x8C]"

definition CHECK_MARK :: string where
  "CHECK_MARK =
     [CHR 0xE2, CHR 0x9C, CHR 0x85] @ '' ''"

definition TEXT_NOT_SELECTED :: string where
  "TEXT_NOT_SELECTED =
     [CHR 0xD0, CHR 0x9D, CHR 0xD0, CHR 0xB5] @ '' ''
     @ [CHR 0xD0, CHR 0xB2, CHR 0xD1, CHR 0x8B, CHR 0xD0, CHR 0xB1]
     @ [CHR 0xD1, CHR 0x80, CHR 0xD0, CHR 0xB0, CHR 0xD0, CHR 0xBD]"

definition TEXT_START_HEAD :: string where
  "TEXT_START_HEAD =
     [CHR 0xF0, CHR 0x9F, CHR 0x91, CHR 0x8B] @ '' *''
     @ [CHR 0xD0, CHR 0x9F, CHR 0xD1, CHR 0x80, CHR 0xD0, CHR 0xB8]
     @ [CHR 0xD0, CHR 0xB2, CHR 0xD0, CHR 0xB5, CHR 0xD1, CHR 0x82] @ ''!* ''
     @ [CHR 0xD0, CHR 0xAF] @ '' AI-''
     @ [CHR 0xD0, CHR 0xB0, CHR 0xD1, CHR 0x81, CHR 0xD1, CHR 0x81]
     @ [CHR 0xD0, CHR 0xB8, CHR 0xD1, CHR 0x81, CHR 0xD1, CHR 0x82]
     @ [CHR 0xD0, CHR 0xB5, CHR 0xD0, CHR 0xBD, CHR 0xD1, CHR 0x82] @ '' ''
     @ [CHR 0xD0, CHR 0xBD, CHR 0xD0, CHR 0xB0] @ '' ''
     @ [CHR 0xD0, CHR 0xB1, CHR 0xD0, CHR 0xB0, CHR 0xD0, CHR 0xB7] @ [CHR 0xD0, CHR 0xB5]
     @ '' YandexGPT.\<newline>\<newline>'' @ [CHR 0xF0, CHR 0x9F, CHR 0xA7, CHR 0xA0] @ '' ''
     @ [CHR 0xD0, CHR 0xAF] @ '' ''
     @ [CHR 0xD0, CHR 0xB7, CHR 0xD0, CHR 0xB0, CHR 0xD0, CHR 0xBF]
     @ [CHR 0xD0, CHR 0xBE, CHR 0xD0, CHR 0xBC, CHR 0xD0, CHR 0xB8]
     @ [CHR 0xD0, CHR 0xBD, CHR 0xD0, CHR 0xB0, CHR 0xD1, CHR 0x8E] @ '' ''
     @ [CHR 0xD0, CHR 0xBA, CHR 0xD0, CHR 0xBE, CHR 0xD0, CHR 0xBD]
     @ [CHR 0xD1, CHR 0x82, CHR 0xD0, CHR 0xB5, CHR 0xD0, CHR 0xBA]
     @ [CHR 0xD1, CHR 0x81, CHR 0xD1, CHR 0x82] @ '' ''
     @ [CHR 0xD0, CHR 0xBD, CHR 0xD0, CHR 0xB0, CHR 0xD1, CHR 0x88]
     @ [CHR 0xD0, CHR 0xB5, CHR 0xD0, CHR 0xB3, CHR 0xD0, CHR 0xBE] @ '' ''
     @ [CHR 0xD1, CHR 0x80, CHR 0xD0, CHR 0xB0, CHR 0xD0, CHR 0xB7]
     @ [CHR 0xD0, CHR 0xB3, CHR 0xD0, CHR 0xBE, CHR 0xD0, CHR 0xB2]
     @ [CHR 0xD0, CHR 0xBE, CHR 0xD1, CHR 0x80, CHR 0xD0, CHR 0xB0] @ ''.\<newline>\<newline>''
     @ [CHR 0xF0, CHR 0x9F, CHR 0xA4, CHR 0x96] @ '' *''
     @ [CHR 0xD0, CHR 0xA2, CHR 0xD0, CHR 0xB5, CHR 0xD0, CHR 0xBA]
     @ [CHR 0xD1, CHR 0x83, CHR 0xD1, CHR 0x89, CHR 0xD0, CHR 0xB8] @ [CHR 0xD0, CHR 0xB9]
     @ '' '' @ [CHR 0xD0, CHR 0xB0, CHR 0xD0, CHR 0xB3, CHR 0xD0, CHR 0xB5]
     @ [CHR 0xD0, CHR 0xBD, CHR 0xD1, CHR 0x82] @ '':* ''"

definition TEXT_START_TAIL :: string where
  "TEXT_START_TAIL =
     ''\<newline>\<newline>*'' @ [CHR 0xD0, CHR 0x94, CHR 0xD0, CHR 0xBE, CHR 0xD1, CHR 0x81]
     @ [CHR 0xD1, CHR 0x82, CHR 0xD1, CHR 0x83, CHR 0xD0, CHR 0xBF]
     @ [CHR 0xD0, CHR 0xBD, CHR 0xD1, CHR 0x8B, CHR 0xD0, CHR 0xB5] @ '' ''
     @ [CHR 0xD0, CHR 0xBA, CHR 0xD0, CHR 0xBE, CHR 0xD0, CHR 0xBC]
     @ [CHR 0xD0, CHR 0xB0, CHR 0xD0, CHR 0xBD, CHR 0xD0, CHR 0xB4] @ [CHR 0xD1, CHR 0x8B]
     @ '':*\<newline>'' @ [CHR 0xF0, CHR 0x9F, CHR 0x86, CHR 0x95] @ '' *''
     @ [CHR 0xD0, CHR 0x9D, CHR 0xD0, CHR 0xBE, CHR 0xD0, CHR 0xB2]
     @ [CHR 0xD1, CHR 0x8B, CHR 0xD0, CHR 0xB9] @ '' ''
     @ [CHR 0xD0, CHR 0xB4, CHR 0xD0, CHR 0xB8, CHR 0xD0, CHR 0xB0]
     @ [CHR 0xD0, CHR 0xBB, CHR 0xD0, CHR 0xBE, CHR 0xD0, CHR 0xB3] @ ''* ''
     @ [CHR 0xE2, CHR 0x80, CHR 0x94] @ '' ''
     @ [CHR 0xD1, CHR 0x81, CHR 0xD0, CHR 0xB1, CHR 0xD1, CHR 0x80]
     @ [CHR 0xD0, CHR 0xBE, CHR 0xD1, CHR 0x81, CHR 0xD0, CHR 0xB8]
     @ [CHR 0xD1, CHR 0x82, CHR 0xD1, CHR 0x8C] @ '' ''
     @ [CHR 0xD0, CHR 0xBA, CHR 0xD0, CHR 0xBE, CHR 0xD0, CHR 0xBD]
     @ [CHR 0xD1, CHR 0x82, CHR 0xD0, CHR 0xB5, CHR 0xD0, CHR 0xBA]
     @ [CHR 0xD1, CHR 0x81, CHR 0xD1, CHR 0x82] @ ''\<newline>''
     @ [CHR 0xF0, CHR 0x9F, CHR 0xA4, CHR 0x96] @ '' *''
     @ [CHR 0xD0, CHR 0x90, CHR 0xD0, CHR 0xB3, CHR 0xD0, CHR 0xB5]
     @ [CHR 0xD0, CHR 0xBD, CHR 0xD1, CHR 0x82, CHR 0xD1, CHR 0x8B] @ ''* ''
     @ [CHR 0xE2, CHR 0x80, CHR 0x94] @ '' ''
     @ [CHR 0xD0, CHR 0xB2, CHR 0xD1, CHR 0x8B, CHR 0xD0, CHR 0xB1]
     @ [CHR 0xD1, CHR 0x80, CHR 0xD0, CHR 0xB0, CHR 0xD1, CHR 0x82] @ [CHR 0xD1, CHR 0x8C]
     @ '' '' @ [CHR 0xD0, CHR 0xB0, CHR 0xD0, CHR 0xB3, CHR 0xD0, CHR 0xB5]
     @ [CHR 0xD0, CHR 0xBD, CHR 0xD1, CHR 0x82, CHR 0xD0, CHR 0xB0] @ ''\<newline>''
     @ [CHR 0xF0, CHR 0x9F, CHR 0x93, CHR 0x8A] @ '' *''
     @ [CHR 0xD0, CHR 0xA1, CHR 0xD1, CHR 0x82, CHR 0xD0, CHR 0xB0]
     @ [CHR 0xD1, CHR 0x82, CHR 0xD1, CHR 0x83, CHR 0xD1, CHR 0x81] @ ''* ''
     @ [CHR 0xE2, CHR 0x80, CHR 0x94] @ '' ''
     @ [CHR 0xD0, CHR 0xB8, CHR 0xD0, CHR 0xBD, CHR 0xD1, CHR 0x84]
     @ [CHR 0xD0, CHR 0xBE, CHR 0xD1, CHR 0x80, CHR 0xD0, CHR 0xBC]
     @ [CHR 0xD0, CHR 0xB0, CHR 0xD1, CHR 0x86, CHR 0xD0, CHR 0xB8] @ [CHR 0xD1, CHR 0x8F]
     @ '' '' @ [CHR 0xD0, CHR 0xBE] @ '' ''
     @ [CHR 0xD0, CHR 0xB4, CHR 0xD0, CHR 0xB8, CHR 0xD0, CHR 0xB0]
     @ [CHR 0xD0, CHR 0xBB, CHR 0xD0, CHR 0xBE, CHR 0xD0, CHR 0xB3] @ [CHR 0xD0, CHR 0xB5]
     @ ''\<newline>'' @ [CHR 0xE2, CHR 0x9D, CHR 0x93] @ '' *''
     @ [CHR 0xD0, CHR 0x9F, CHR 0xD0, CHR 0xBE, CHR 0xD0, CHR 0xBC]
     @ [CHR 0xD0, CHR 0xBE, CHR 0xD1, CHR 0x89, CHR 0xD1, CHR 0x8C] @ ''* ''
     @ [CHR 0xE2, CHR 0x80, CHR 0x94] @ '' ''
     @ [CHR 0xD1, CHR 0x81, CHR 0xD0, CHR 0xBF, CHR 0xD1, CHR 0x80]
     @ [CHR 0xD0, CHR 0xB0, CHR 0xD0, CHR 0xB2, CHR 0xD0, CHR 0xBA] @ [CHR 0xD0, CHR 0xB0]
     @ ''\<newline>\<newline>'' @ [CHR 0xD0, CHR 0x9F, CHR 0xD1, CHR 0x80, CHR 0xD0, CHR 0xBE]
     @ [CHR 0xD1, CHR 0x81, CHR 0xD1, CHR 0x82, CHR 0xD0, CHR 0xBE] @ '' ''
     @ [CHR 0xD0, CHR 0xBD, CHR 0xD0, CHR 0xB0, CHR 0xD0, CHR 0xBF]
     @ [CHR 0xD0, CHR 0xB8, CHR 0xD1, CHR 0x88, CHR 0xD0, CHR 0xB8] @ '' ''
     @ [CHR 0xD0, CHR 0xBC, CHR 0xD0, CHR 0xBD, CHR 0xD0, CHR 0xB5] @ '' ''
     @ [CHR 0xD1, CHR 0x81, CHR 0xD0, CHR 0xBE, CHR 0xD0, CHR 0xBE]
     @ [CHR 0xD0, CHR 0xB1, CHR 0xD1, CHR 0x89, CHR 0xD0, CHR 0xB5]
     @ [CHR 0xD0, CHR 0xBD, CHR 0xD0, CHR 0xB8, CHR 0xD0, CHR 0xB5] @ ''! ''
     @ [CHR 0xF0, CHR 0x9F, CHR 0x92, CHR 0xAC]"

definition TEXT_NEW :: string where
  "TEXT_NEW =
     [CHR 0xF0, CHR 0x9F, CHR 0x86, CHR 0x95] @ '' *''
     @ [CHR 0xD0, CHR 0x94, CHR 0xD0, CHR 0xB8, CHR 0xD0, CHR 0xB0]
     @ [CHR 0xD0, CHR 0xBB, CHR 0xD0, CHR 0xBE, CHR 0xD0, CHR 0xB3] @ '' ''
     @ [CHR 0xD1, CHR 0x81, CHR 0xD0, CHR 0xB1, CHR 0xD1, CHR 0x80]
     @ [CHR 0xD0, CHR 0xBE, CHR 0xD1, CHR 0x88, CHR 0xD0, CHR 0xB5] @ [CHR 0xD0, CHR 0xBD]
     @ ''!*\<newline>\<newline>''
     @ [CHR 0xD0, CHR 0x9A, CHR 0xD0, CHR 0xBE, CHR 0xD0, CHR 0xBD]
     @ [CHR 0xD1, CHR 0x82, CHR 0xD0, CHR 0xB5, CHR 0xD0, CHR 0xBA]
     @ [CHR 0xD1, CHR 0x81, CHR 0xD1, CHR 0x82] @ '' ''
     @ [CHR 0xD0, CHR 0xBE, CHR 0xD1, CHR 0x87, CHR 0xD0, CHR 0xB8]
     @ [CHR 0xD1, CHR 0x89, CHR 0xD0, CHR 0xB5, CHR 0xD0, CHR 0xBD] @ ''. ''
     @ [CHR 0xD0, CHR 0x9D, CHR 0xD0, CHR 0xB0, CHR 0xD1, CHR 0x87]
     @ [CHR 0xD0, CHR 0xB8, CHR 0xD0, CHR 0xBD, CHR 0xD0, CHR 0xB0]
     @ [CHR 0xD0, CHR 0xB5, CHR 0xD0, CHR 0xBC] @ '' ''
     @ [CHR 0xD0, CHR 0xBD, CHR 0xD0, CHR 0xBE, CHR 0xD0, CHR 0xB2]
     @ [CHR 0xD1, CHR 0x8B, CHR 0xD0, CHR 0xB9] @ '' ''
     @ [CHR 0xD1, CHR 0x80, CHR 0xD0, CHR 0xB0, CHR 0xD0, CHR 0xB7]
     @ [CHR 0xD0, CHR 0xB3, CHR 0xD0, CHR 0xBE, CHR 0xD0, CHR 0xB2]
     @ [CHR 0xD0, CHR 0xBE, CHR 0xD1, CHR 0x80] @ ''.''"

definition TEXT_AGENTS :: string where
  "TEXT_AGENTS =
     [CHR 0xF0, CHR 0x9F, CHR 0xA4, CHR 0x96] @ '' *''
     @ [CHR 0xD0, CHR 0x92, CHR 0xD1, CHR 0x8B, CHR 0xD0, CHR 0xB1]
     @ [CHR 0xD0, CHR 0xB5, CHR 0xD1, CHR 0x80, CHR 0xD0, CHR 0xB8]
     @ [CHR 0xD1, CHR 0x82, CHR 0xD0, CHR 0xB5] @ '' ''
     @ [CHR 0xD0, CHR 0xB0, CHR 0xD0, CHR 0xB3, CHR 0xD0, CHR 0xB5]
     @ [CHR 0xD0, CHR 0xBD, CHR 0xD1, CHR 0x82, CHR 0xD0, CHR 0xB0]
     @ '':*\<newline>\<newline>''
     @ [CHR 0xD0, CHR 0x9A, CHR 0xD0, CHR 0xB0, CHR 0xD0, CHR 0xB6]
     @ [CHR 0xD0, CHR 0xB4, CHR 0xD1, CHR 0x8B, CHR 0xD0, CHR 0xB9] @ '' ''
     @ [CHR 0xD0, CHR 0xB0, CHR 0xD0, CHR 0xB3, CHR 0xD0, CHR 0xB5]
     @ [CHR 0xD0, CHR 0xBD, CHR 0xD1, CHR 0x82] @ '' ''
     @ [CHR 0xD0, CHR 0xB8, CHR 0xD0, CHR 0xBC, CHR 0xD0, CHR 0xB5]
     @ [CHR 0xD0, CHR 0xB5, CHR 0xD1, CHR 0x82] @ '' ''
     @ [CHR 0xD1, CHR 0x81, CHR 0xD0, CHR 0xB2, CHR 0xD0, CHR 0xBE] @ [CHR 0xD0, CHR 0xB8]
     @ '' '' @ [CHR 0xD0, CHR 0xBD, CHR 0xD0, CHR 0xB0, CHR 0xD1, CHR 0x81]
     @ [CHR 0xD1, CHR 0x82, CHR 0xD1, CHR 0x80, CHR 0xD0, CHR 0xBE]
     @ [CHR 0xD0, CHR 0xB9, CHR 0xD0, CHR 0xBA, CHR 0xD0, CHR 0xB8] @ '', ''
     @ [CHR 0xD0, CHR 0xBF, CHR 0xD1, CHR 0x80, CHR 0xD0, CHR 0xBE]
     @ [CHR 0xD0, CHR 0xBC, CHR 0xD0, CHR 0xBF, CHR 0xD1, CHR 0x82] @ '' ''
     @ [CHR 0xD0, CHR 0xB8] @ '' ''
     @ [CHR 0xD0, CHR 0xB8, CHR 0xD0, CHR 0xBD, CHR 0xD1, CHR 0x81]
     @ [CHR 0xD1, CHR 0x82, CHR 0xD1, CHR 0x80, CHR 0xD1, CHR 0x83]
     @ [CHR 0xD0, CHR 0xBC, CHR 0xD0, CHR 0xB5, CHR 0xD0, CHR 0xBD]
     @ [CHR 0xD1, CHR 0x82, CHR 0xD1, CHR 0x8B] @ ''.''"

definition TEXT_STATUS_HEAD :: string where
  "TEXT_STATUS_HEAD =
     [CHR 0xF0, CHR 0x9F, CHR 0x93, CHR 0x8A] @ '' *''
     @ [CHR 0xD0, CHR 0xA1, CHR 0xD1, CHR 0x82, CHR 0xD0, CHR 0xB0]
     @ [CHR 0xD1, CHR 0x82, CHR 0xD1, CHR 0x83, CHR 0xD1, CHR 0x81] @ '' ''
     @ [CHR 0xD0, CHR 0xB4, CHR 0xD0, CHR 0xB8, CHR 0xD0, CHR 0xB0]
     @ [CHR 0xD0, CHR 0xBB, CHR 0xD0, CHR 0xBE, CHR 0xD0, CHR 0xB3] @ [CHR 0xD0, CHR 0xB0]
     @ ''*\<newline>\<newline>'' @ [CHR 0xF0, CHR 0x9F, CHR 0xA4, CHR 0x96] @ '' ''
     @ [CHR 0xD0, CHR 0x90, CHR 0xD0, CHR 0xB3, CHR 0xD0, CHR 0xB5]
     @ [CHR 0xD0, CHR 0xBD, CHR 0xD1, CHR 0x82] @ '': ''"

definition TEXT_STATUS_COUNT :: string where
  "TEXT_STATUS_COUNT =
     ''\<newline>'' @ [CHR 0xF0, CHR 0x9F, CHR 0x92, CHR 0xAC] @ '' ''
     @ [CHR 0xD0, CHR 0xA1, CHR 0xD0, CHR 0xBE, CHR 0xD0, CHR 0xBE]
     @ [CHR 0xD0, CHR 0xB1, CHR 0xD1, CHR 0x89, CHR 0xD0, CHR 0xB5]
     @ [CHR 0xD0, CHR 0xBD, CHR 0xD0, CHR 0xB8, CHR 0xD0, CHR 0xB9] @ '': ''"

definition TEXT_STATUS_CONTEXT :: string where
  "TEXT_STATUS_CONTEXT =
     ''\<newline>'' @ [CHR 0xF0, CHR 0x9F, CHR 0xA7, CHR 0xA0] @ '' ''
     @ [CHR 0xD0, CHR 0x9A, CHR 0xD0, CHR 0xBE, CHR 0xD0, CHR 0xBD]
     @ [CHR 0xD1, CHR 0x82, CHR 0xD0, CHR 0xB5, CHR 0xD0, CHR 0xBA]
     @ [CHR 0xD1, CHR 0x81, CHR 0xD1, CHR 0x82] @ '' ''
     @ [CHR 0xD1, CHR 0x81, CHR 0xD0, CHR 0xBE, CHR 0xD1, CHR 0x85]
     @ [CHR 0xD1, CHR 0x80, CHR 0xD0, CHR 0xB0, CHR 0xD0, CHR 0xBD]
     @ [CHR 0xD1, CHR 0x91, CHR 0xD0, CHR 0xBD] @ '': ''"

definition TEXT_YES :: string where
  "TEXT_YES =
     [CHR 0xE2, CHR 0x9C, CHR 0x85] @ '' '' @ [CHR 0xD0, CHR 0x94, CHR 0xD0, CHR 0xB0]"

definition TEXT_NO :: string where
  "TEXT_NO =
     [CHR 0xE2, CHR 0x9D, CHR 0x8C] @ '' ''
     @ [CHR 0xD0, CHR 0x9D, CHR 0xD0, CHR 0xB5, CHR 0xD1, CHR 0x82]"

definition TEXT_HELP :: string where
  "TEXT_HELP =
     [CHR 0xE2, CHR 0x9D, CHR 0x93] @ '' *''
     @ [CHR 0xD0, CHR 0xA1, CHR 0xD0, CHR 0xBF, CHR 0xD1, CHR 0x80]
     @ [CHR 0xD0, CHR 0xB0, CHR 0xD0, CHR 0xB2, CHR 0xD0, CHR 0xBA] @ [CHR 0xD0, CHR 0xB0]
     @ ''*\<newline>\<newline>'' @ [CHR 0xD0, CHR 0xAF] @ '' ''
     @ [CHR 0xE2, CHR 0x80, CHR 0x94] @ '' AI-''
     @ [CHR 0xD0, CHR 0xB0, CHR 0xD1, CHR 0x81, CHR 0xD1, CHR 0x81]
     @ [CHR 0xD0, CHR 0xB8, CHR 0xD1, CHR 0x81, CHR 0xD1, CHR 0x82]
     @ [CHR 0xD0, CHR 0xB5, CHR 0xD0, CHR 0xBD, CHR 0xD1, CHR 0x82] @ '' ''
     @ [CHR 0xD1, CHR 0x81] @ '' ''
     @ [CHR 0xD0, CHR 0xBF, CHR 0xD0, CHR 0xB0, CHR 0xD0, CHR 0xBC]
     @ [CHR 0xD1, CHR 0x8F, CHR 0xD1, CHR 0x82, CHR 0xD1, CHR 0x8C] @ [CHR 0xD1, CHR 0x8E]
     @ ''. '' @ [CHR 0xD0, CHR 0xAF] @ '' ''
     @ [CHR 0xD0, CHR 0xBF, CHR 0xD0, CHR 0xBE, CHR 0xD0, CHR 0xBC]
     @ [CHR 0xD0, CHR 0xBD, CHR 0xD1, CHR 0x8E] @ '' ''
     @ [CHR 0xD0, CHR 0xBD, CHR 0xD0, CHR 0xB0, CHR 0xD1, CHR 0x88] @ '' ''
     @ [CHR 0xD1, CHR 0x80, CHR 0xD0, CHR 0xB0, CHR 0xD0, CHR 0xB7]
     @ [CHR 0xD0, CHR 0xB3, CHR 0xD0, CHR 0xBE, CHR 0xD0, CHR 0xB2]
     @ [CHR 0xD0, CHR 0xBE, CHR 0xD1, CHR 0x80] @ '' '' @ [CHR 0xD0, CHR 0xB8] @ '' ''
     @ [CHR 0xD0, CHR 0xBC, CHR 0xD0, CHR 0xBE, CHR 0xD0, CHR 0xB3] @ [CHR 0xD1, CHR 0x83]
     @ '' '' @ [CHR 0xD0, CHR 0xBE, CHR 0xD1, CHR 0x82, CHR 0xD0, CHR 0xB2]
     @ [CHR 0xD0, CHR 0xB5, CHR 0xD1, CHR 0x87, CHR 0xD0, CHR 0xB0]
     @ [CHR 0xD1, CHR 0x82, CHR 0xD1, CHR 0x8C] @ '' '' @ [CHR 0xD1, CHR 0x81] @ '' ''
     @ [CHR 0xD1, CHR 0x83, CHR 0xD1, CHR 0x87, CHR 0xD1, CHR 0x91]
     @ [CHR 0xD1, CHR 0x82, CHR 0xD0, CHR 0xBE, CHR 0xD0, CHR 0xBC] @ '' ''
     @ [CHR 0xD0, CHR 0xBA, CHR 0xD0, CHR 0xBE, CHR 0xD0, CHR 0xBD]
     @ [CHR 0xD1, CHR 0x82, CHR 0xD0, CHR 0xB5, CHR 0xD0, CHR 0xBA]
     @ [CHR 0xD1, CHR 0x81, CHR 0xD1, CHR 0x82, CHR 0xD0, CHR 0xB0]
     @ ''.\<newline>\<newline>*''
     @ [CHR 0xD0, CHR 0x9A, CHR 0xD0, CHR 0xBE, CHR 0xD0, CHR 0xBC]
     @ [CHR 0xD0, CHR 0xB0, CHR 0xD0, CHR 0xBD, CHR 0xD0, CHR 0xB4] @ [CHR 0xD1, CHR 0x8B]
     @ '':*\<newline>'' @ [CHR 0xE2, CHR 0x80, CHR 0xA2] @ '' /new ''
     @ [CHR 0xE2, CHR 0x80, CHR 0x94] @ '' ''
     @ [CHR 0xD0, CHR 0xBD, CHR 0xD0, CHR 0xB0, CHR 0xD1, CHR 0x87]
     @ [CHR 0xD0, CHR 0xB0, CHR 0xD1, CHR 0x82, CHR 0xD1, CHR 0x8C] @ '' ''
     @ [CHR 0xD0, CHR 0xBD, CHR 0xD0, CHR 0xBE, CHR 0xD0, CHR 0xB2]
     @ [CHR 0xD1, CHR 0x8B, CHR 0xD0, CHR 0xB9] @ '' ''
     @ [CHR 0xD0, CHR 0xB4, CHR 0xD0, CHR 0xB8, CHR 0xD0, CHR 0xB0]
     @ [CHR 0xD0, CHR 0xBB, CHR 0xD0, CHR 0xBE, CHR 0xD0, CHR 0xB3] @ ''\<newline>''
     @ [CHR 0xE2, CHR 0x80, CHR 0xA2] @ '' /agents '' @ [CHR 0xE2, CHR 0x80, CHR 0x94] @ '' ''
     @ [CHR 0xD0, CHR 0xB2, CHR 0xD1, CHR 0x8B, CHR 0xD0, CHR 0xB1]
     @ [CHR 0xD1, CHR 0x80, CHR 0xD0, CHR 0xB0, CHR 0xD1, CHR 0x82] @ [CHR 0xD1, CHR 0x8C]
     @ '' '' @ [CHR 0xD0, CHR 0xB0, CHR 0xD0, CHR 0xB3, CHR 0xD0, CHR 0xB5]
     @ [CHR 0xD0, CHR 0xBD, CHR 0xD1, CHR 0x82, CHR 0xD0, CHR 0xB0] @ ''\<newline>''
     @ [CHR 0xE2, CHR 0x80, CHR 0xA2] @ '' /status '' @ [CHR 0xE2, CHR 0x80, CHR 0x94] @ '' ''
     @ [CHR 0xD1, CHR 0x81, CHR 0xD1, CHR 0x82, CHR 0xD0, CHR 0xB0]
     @ [CHR 0xD1, CHR 0x82, CHR 0xD1, CHR 0x83, CHR 0xD1, CHR 0x81] @ '' ''
     @ [CHR 0xD0, CHR 0xB4, CHR 0xD0, CHR 0xB8, CHR 0xD0, CHR 0xB0]
     @ [CHR 0xD0, CHR 0xBB, CHR 0xD0, CHR 0xBE, CHR 0xD0, CHR 0xB3] @ [CHR 0xD0, CHR 0xB0]
     @ ''\<newline>'' @ [CHR 0xE2, CHR 0x80, CHR 0xA2] @ '' /help ''
     @ [CHR 0xE2, CHR 0x80, CHR 0x94] @ '' ''
     @ [CHR 0xD1, CHR 0x8D, CHR 0xD1, CHR 0x82, CHR 0xD0, CHR 0xB0] @ '' ''
     @ [CHR 0xD1, CHR 0x81, CHR 0xD0, CHR 0xBF, CHR 0xD1, CHR 0x80]
     @ [CHR 0xD0, CHR 0xB0, CHR 0xD0, CHR 0xB2, CHR 0xD0, CHR 0xBA] @ [CHR 0xD0, CHR 0xB0]
     @ ''\<newline>\<newline>*'' @ [CHR 0xD0, CHR 0x90, CHR 0xD0, CHR 0xB3, CHR 0xD0, CHR 0xB5]
     @ [CHR 0xD0, CHR 0xBD, CHR 0xD1, CHR 0x82, CHR 0xD1, CHR 0x8B] @ '':*\<newline>''
     @ [CHR 0xD0, CHR 0x92, CHR 0xD1, CHR 0x8B] @ '' ''
     @ [CHR 0xD0, CHR 0xBC, CHR 0xD0, CHR 0xBE, CHR 0xD0, CHR 0xB6]
     @ [CHR 0xD0, CHR 0xB5, CHR 0xD1, CHR 0x82, CHR 0xD0, CHR 0xB5] @ '' ''
     @ [CHR 0xD0, CHR 0xBF, CHR 0xD0, CHR 0xB5, CHR 0xD1, CHR 0x80]
     @ [CHR 0xD0, CHR 0xB5, CHR 0xD0, CHR 0xBA, CHR 0xD0, CHR 0xBB]
     @ [CHR 0xD1, CHR 0x8E, CHR 0xD1, CHR 0x87, CHR 0xD0, CHR 0xB0]
     @ [CHR 0xD1, CHR 0x82, CHR 0xD1, CHR 0x8C, CHR 0xD1, CHR 0x81] @ [CHR 0xD1, CHR 0x8F]
     @ '' '' @ [CHR 0xD0, CHR 0xBC, CHR 0xD0, CHR 0xB5, CHR 0xD0, CHR 0xB6]
     @ [CHR 0xD0, CHR 0xB4, CHR 0xD1, CHR 0x83] @ '' ''
     @ [CHR 0xD1, CHR 0x80, CHR 0xD0, CHR 0xB0, CHR 0xD0, CHR 0xB7]
     @ [CHR 0xD0, CHR 0xBD, CHR 0xD1, CHR 0x8B, CHR 0xD0, CHR 0xBC] @ [CHR 0xD0, CHR 0xB8]
     @ '' '' @ [CHR 0xD0, CHR 0xB0, CHR 0xD0, CHR 0xB3, CHR 0xD0, CHR 0xB5]
     @ [CHR 0xD0, CHR 0xBD, CHR 0xD1, CHR 0x82, CHR 0xD0, CHR 0xB0]
     @ [CHR 0xD0, CHR 0xBC, CHR 0xD0, CHR 0xB8] @ ''. ''
     @ [CHR 0xD0, CHR 0x9A, CHR 0xD0, CHR 0xB0, CHR 0xD0, CHR 0xB6]
     @ [CHR 0xD0, CHR 0xB4, CHR 0xD1, CHR 0x8B, CHR 0xD0, CHR 0xB9] @ '' ''
     @ [CHR 0xD0, CHR 0xB0, CHR 0xD0, CHR 0xB3, CHR 0xD0, CHR 0xB5]
     @ [CHR 0xD0, CHR 0xBD, CHR 0xD1, CHR 0x82] @ '' ''
     @ [CHR 0xD0, CHR 0xB8, CHR 0xD0, CHR 0xBC, CHR 0xD0, CHR 0xB5]
     @ [CHR 0xD0, CHR 0xB5, CHR 0xD1, CHR 0x82] @ '' ''
     @ [CHR 0xD1, CHR 0x81, CHR 0xD0, CHR 0xB2, CHR 0xD0, CHR 0xBE] @ [CHR 0xD0, CHR 0xB9]
     @ '' '' @ [CHR 0xD0, CHR 0xBF, CHR 0xD1, CHR 0x80, CHR 0xD0, CHR 0xBE]
     @ [CHR 0xD0, CHR 0xBC, CHR 0xD0, CHR 0xBF, CHR 0xD1, CHR 0x82] @ '' ''
     @ [CHR 0xD0, CHR 0xB8] @ '' ''
     @ [CHR 0xD0, CHR 0xB8, CHR 0xD0, CHR 0xBD, CHR 0xD1, CHR 0x81]
     @ [CHR 0xD1, CHR 0x82, CHR 0xD1, CHR 0x80, CHR 0xD1, CHR 0x83]
     @ [CHR 0xD0, CHR 0xBC, CHR 0xD0, CHR 0xB5, CHR 0xD0, CHR 0xBD]
     @ [CHR 0xD1, CHR 0x82, CHR 0xD1, CHR 0x8B] @ ''.\<newline>\<newline>''
     @ [CHR 0xF0, CHR 0x9F, CHR 0x92, CHR 0xA1] @ '' *''
     @ [CHR 0xD0, CHR 0xA1, CHR 0xD0, CHR 0xBE, CHR 0xD0, CHR 0xB2]
     @ [CHR 0xD0, CHR 0xB5, CHR 0xD1, CHR 0x82] @ '':* ''
     @ [CHR 0xD0, CHR 0x9F, CHR 0xD1, CHR 0x80, CHR 0xD0, CHR 0xB8] @ '' ''
     @ [CHR 0xD1, CHR 0x81, CHR 0xD0, CHR 0xBC, CHR 0xD0, CHR 0xB5]
     @ [CHR 0xD0, CHR 0xBD, CHR 0xD0, CHR 0xB5] @ '' ''
     @ [CHR 0xD0, CHR 0xB0, CHR 0xD0, CHR 0xB3, CHR 0xD0, CHR 0xB5]
     @ [CHR 0xD0, CHR 0xBD, CHR 0xD1, CHR 0x82, CHR 0xD0, CHR 0xB0] @ '' ''
     @ [CHR 0xD0, CHR 0xBA, CHR 0xD0, CHR 0xBE, CHR 0xD0, CHR 0xBD]
     @ [CHR 0xD1, CHR 0x82, CHR 0xD0, CHR 0xB5, CHR 0xD0, CHR 0xBA]
     @ [CHR 0xD1, CHR 0x81, CHR 0xD1, CHR 0x82] @ '' ''
     @ [CHR 0xD0, CHR 0xB4, CHR 0xD0, CHR 0xB8, CHR 0xD0, CHR 0xB0]
     @ [CHR 0xD0, CHR 0xBB, CHR 0xD0, CHR 0xBE, CHR 0xD0, CHR 0xB3] @ [CHR 0xD0, CHR 0xB0]
     @ '' '' @ [CHR 0xD1, CHR 0x81, CHR 0xD0, CHR 0xBE, CHR 0xD1, CHR 0x85]
     @ [CHR 0xD1, CHR 0x80, CHR 0xD0, CHR 0xB0, CHR 0xD0, CHR 0xBD]
     @ [CHR 0xD1, CHR 0x8F, CHR 0xD0, CHR 0xB5, CHR 0xD1, CHR 0x82]
     @ [CHR 0xD1, CHR 0x81, CHR 0xD1, CHR 0x8F] @ ''!''"

definition NOTICE_NOT_FOUND :: string where
  "NOTICE_NOT_FOUND =
     [CHR 0xE2, CHR 0x9D, CHR 0x8C] @ '' ''
     @ [CHR 0xD0, CHR 0x90, CHR 0xD0, CHR 0xB3, CHR 0xD0, CHR 0xB5]
     @ [CHR 0xD0, CHR 0xBD, CHR 0xD1, CHR 0x82] @ '' ''
     @ [CHR 0xD0, CHR 0xBD, CHR 0xD0, CHR 0xB5] @ '' ''
     @ [CHR 0xD0, CHR 0xBD, CHR 0xD0, CHR 0xB0, CHR 0xD0, CHR 0xB9]
     @ [CHR 0xD0, CHR 0xB4, CHR 0xD0, CHR 0xB5, CHR 0xD0, CHR 0xBD]"

definition NOTICE_CHANGED :: string where
  "NOTICE_CHANGED =
     [CHR 0xE2, CHR 0x9C, CHR 0x85] @ '' ''
     @ [CHR 0xD0, CHR 0x90, CHR 0xD0, CHR 0xB3, CHR 0xD0, CHR 0xB5]
     @ [CHR 0xD0, CHR 0xBD, CHR 0xD1, CHR 0x82] @ '' ''
     @ [CHR 0xD0, CHR 0xB8, CHR 0xD0, CHR 0xB7, CHR 0xD0, CHR 0xBC]
     @ [CHR 0xD0, CHR 0xB5, CHR 0xD0, CHR 0xBD, CHR 0xD1, CHR 0x91] @ [CHR 0xD0, CHR 0xBD]
     @ ''! '' @ [CHR 0xD0, CHR 0x9A, CHR 0xD0, CHR 0xBE, CHR 0xD0, CHR 0xBD]
     @ [CHR 0xD1, CHR 0x82, CHR 0xD0, CHR 0xB5, CHR 0xD0, CHR 0xBA]
     @ [CHR 0xD1, CHR 0x81, CHR 0xD1, CHR 0x82] @ '' ''
     @ [CHR 0xD1, CHR 0x81, CHR 0xD0, CHR 0xB1, CHR 0xD1, CHR 0x80]
     @ [CHR 0xD0, CHR 0xBE, CHR 0xD1, CHR 0x88, CHR 0xD0, CHR 0xB5] @ [CHR 0xD0, CHR 0xBD]
     @ ''.''"

definition NOTICE_ALREADY :: string where
  "NOTICE_ALREADY =
     [CHR 0xE2, CHR 0x84, CHR 0xB9, CHR 0xEF, CHR 0xB8, CHR 0x8F] @ '' ''
     @ [CHR 0xD0, CHR 0xAD, CHR 0xD1, CHR 0x82, CHR 0xD0, CHR 0xBE] @ [CHR 0xD1, CHR 0x82]
     @ '' '' @ [CHR 0xD0, CHR 0xB0, CHR 0xD0, CHR 0xB3, CHR 0xD0, CHR 0xB5]
     @ [CHR 0xD0, CHR 0xBD, CHR 0xD1, CHR 0x82] @ '' ''
     @ [CHR 0xD1, CHR 0x83, CHR 0xD0, CHR 0xB6, CHR 0xD0, CHR 0xB5] @ '' ''
     @ [CHR 0xD0, CHR 0xB2, CHR 0xD1, CHR 0x8B, CHR 0xD0, CHR 0xB1]
     @ [CHR 0xD1, CHR 0x80, CHR 0xD0, CHR 0xB0, CHR 0xD0, CHR 0xBD]"

definition TEXT_SELECTED_HEAD :: string where
  "TEXT_SELECTED_HEAD =
     [CHR 0xF0, CHR 0x9F, CHR 0xA4, CHR 0x96] @ '' *''
     @ [CHR 0xD0, CHR 0x92, CHR 0xD1, CHR 0x8B, CHR 0xD0, CHR 0xB1]
     @ [CHR 0xD1, CHR 0x80, CHR 0xD0, CHR 0xB0, CHR 0xD0, CHR 0xBD] @ '' ''
     @ [CHR 0xD0, CHR 0xB0, CHR 0xD0, CHR 0xB3, CHR 0xD0, CHR 0xB5]
     @ [CHR 0xD0, CHR 0xBD, CHR 0xD1, CHR 0x82] @ '':* ''"

definition TEXT_SELECTED_TAIL :: string where
  "TEXT_SELECTED_TAIL =
     ''\<newline>\<newline>'' @ [CHR 0xD0, CHR 0xA2, CHR 0xD0, CHR 0xB5, CHR 0xD0, CHR 0xBF]
     @ [CHR 0xD0, CHR 0xB5, CHR 0xD1, CHR 0x80, CHR 0xD1, CHR 0x8C] @ '' ''
     @ [CHR 0xD0, CHR 0xBC, CHR 0xD0, CHR 0xBE, CHR 0xD0, CHR 0xB6]
     @ [CHR 0xD0, CHR 0xB5, CHR 0xD1, CHR 0x82, CHR 0xD0, CHR 0xB5] @ '' ''
     @ [CHR 0xD0, CHR 0xBD, CHR 0xD0, CHR 0xB0, CHR 0xD1, CHR 0x87]
     @ [CHR 0xD0, CHR 0xB0, CHR 0xD1, CHR 0x82, CHR 0xD1, CHR 0x8C] @ '' ''
     @ [CHR 0xD0, CHR 0xB4, CHR 0xD0, CHR 0xB8, CHR 0xD0, CHR 0xB0]
     @ [CHR 0xD0, CHR 0xBB, CHR 0xD0, CHR 0xBE, CHR 0xD0, CHR 0xB3] @ ''!''"

section \<open>The world outside the source file\<close>

text \<open>
  The calls that leave the process, in the order they are made: the object store
  (\<^verbatim>\<open>get_object\<close>, \<^verbatim>\<open>put_object\<close> and \<^verbatim>\<open>delete_object\<close> with their \<^verbatim>\<open>Key\<close>, and the \<^verbatim>\<open>Body\<close>
  of a put), \<^verbatim>\<open>requests.post\<close> to a method of the chat platform with its JSON payload, and
  \<^verbatim>\<open>client.responses.create\<close> with the agent id of its \<^verbatim>\<open>prompt\<close>, its \<^verbatim>\<open>input\<close> and its
  \<^verbatim>\<open>previous_response_id\<close>.
\<close>

datatype call =
    GetObject string
  | PutObject string string
  | DeleteObject string
  | Post string json
  | ResponsesCreate json json json

text \<open>
  What the source takes from its environment and its libraries, fixed during one
  invocation: the variable \<^verbatim>\<open>AGENTS_JSON\<close>, \<^verbatim>\<open>json.loads\<close> (which raises on a text that is
  not valid JSON), \<^verbatim>\<open>json.dumps\<close>, \<^verbatim>\<open>repr\<close>, whether the object store fails on reads and on
  writes, the completion API (it raises, or returns the \<^verbatim>\<open>id\<close> and the \<^verbatim>\<open>output_text\<close> of
  its response) and the JSON answer of the chat platform to a post. The chat platform
  is fire-and-forget: a post returns, and the source never looks at what it returns.
\<close>

record world =
  AGENTS_JSON :: "string option"
  json_loads :: "string \<Rightarrow> exn + json"
  json_dumps :: "json \<Rightarrow> string"
  py_repr :: "json \<Rightarrow> string"
  s3_get_fails :: bool
  s3_put_fails :: bool
  responses_create :: "json \<Rightarrow> json \<Rightarrow> json \<Rightarrow> exn + string \<times> string"
  post_response :: "string \<Rightarrow> json \<Rightarrow> json"

text \<open>The state that changes: the objects of the bucket and the calls made so far.\<close>

record sys =
  objects :: "string \<rightharpoonup> string"
  calls :: "call list"

text \<open>\<^verbatim>\<open>str(x)\<close>, as an f-string formats a value.\<close>

definition py_str :: "world \<Rightarrow> json \<Rightarrow> string" where
  "py_str w x =
     (case x of
        JStr s \<Rightarrow> s
      | JNull \<Rightarrow> ''None''
      | JBool b \<Rightarrow> (if b then ''True'' else ''False'')
      | JInt i \<Rightarrow> str_of_int i
      | _ \<Rightarrow> py_repr w x)"

text \<open>\<^verbatim>\<open>str(e)\<close> of an exception.\<close>

definition str_of_exn :: "world \<Rightarrow> exn \<Rightarrow> string" where
  "str_of_exn w e =
     (case e of
        AttributeError t a \<Rightarrow>
          quoted t @ '' object has no attribute '' @ quoted a
      | TypeError m \<Rightarrow> m
      | KeyError k \<Rightarrow> py_repr w (JStr k)
      | IndexError m \<Rightarrow> m
      | Failure m \<Rightarrow> m)"

text \<open>
  A computation takes the state and returns the state together with its value, or with
  the exception it raised.
\<close>

type_synonym 'a io = "sys \<Rightarrow> (exn + 'a) \<times> sys"

definition io_return :: "'a \<Rightarrow> 'a io" where
  "io_return a s = (Inr a, s)"

definition io_lift :: "exn + 'a \<Rightarrow> 'a io" where
  "io_lift r s = (r, s)"

definition io_bind :: "'a io \<Rightarrow> ('a \<Rightarrow> 'b io) \<Rightarrow> 'b io" where
  "io_bind m f s = (case m s of (Inl e, s') \<Rightarrow> (Inl e, s') | (Inr a, s') \<Rightarrow> f a s')"

definition record_call :: "call \<Rightarrow> sys \<Rightarrow> sys" where
  "record_call c s = s\<lparr>calls := calls s @ [c]\<rparr>"

section \<open>Agent registry and session store\<close>

definition DEFAULT_AGENTS :: json where
  "DEFAULT_AGENTS = JObj []"

definition get_agents :: "world \<Rightarrow> json" where
  "get_agents w =
     (case AGENTS_JSON w of
        None \<Rightarrow> DEFAULT_AGENTS
      | Some agents_json \<Rightarrow>
          if agents_json \<noteq> [] then
            (case json_loads w agents_json of
               Inr v \<Rightarrow> v
             | Inl _ \<Rightarrow> DEFAULT_AGENTS)
          else DEFAULT_AGENTS)"

definition dialog_key :: "world \<Rightarrow> json \<Rightarrow> string" where
  "dialog_key w chat_id = ''dialogs/'' @ py_str w chat_id @ ''.json''"

text \<open>
  \<^verbatim>\<open>s3.get_object(...)["Body"].read().decode("utf-8")\<close>: the text of the object, or an
  exception when the store fails or has no such key.
\<close>

definition s3_get_object :: "world \<Rightarrow> string \<Rightarrow> string io" where
  "s3_get_object w key s =
     (let s' = record_call (GetObject key) s in
      if s3_get_fails w then (Inl (Failure ''EndpointConnectionError''), s')
      else
        (case objects s key of
           None \<Rightarrow> (Inl (Failure ''NoSuchKey''), s')
         | Some body \<Rightarrow> (Inr body, s')))"

definition get_dialog_state :: "world \<Rightarrow> json \<Rightarrow> json io" where
  "get_dialog_state w chat_id s =
     (case io_bind (s3_get_object w (dialog_key w chat_id))
             (\<lambda>body. io_lift (json_loads w body)) s of
        (Inr state, s') \<Rightarrow> (Inr state, s')
      | (Inl _, s') \<Rightarrow>
          (let agents = get_agents w in
           case (if py_truthy agents then py_first_key agents else Inr JNull) of
             Inl e \<Rightarrow> (Inl e, s')
           | Inr default_agent \<Rightarrow>
               (Inr (JObj [(''previous_response_id'', JNull),
                           (''message_count'', JInt 0),
                           (''agent_id'', default_agent)]), s')))"

text \<open>
  \<^verbatim>\<open>save_dialog_state\<close> catches every exception of the store (it prints it) and returns
  nothing.
\<close>

definition save_dialog_state :: "world \<Rightarrow> json \<Rightarrow> json \<Rightarrow> unit io" where
  "save_dialog_state w chat_id state s =
     (let key = dialog_key w chat_id;
          body = json_dumps w state;
          s' = record_call (PutObject key body) s
      in if s3_put_fails w then (Inr (), s')
         else (Inr (), s'\<lparr>objects := (objects s')(key \<mapsto> body)\<rparr>))"

definition delete_dialog_state :: "world \<Rightarrow> json \<Rightarrow> unit io" where
  "delete_dialog_state w chat_id s =
     (let key = dialog_key w chat_id;
          s' = record_call (DeleteObject key) s
      in if s3_put_fails w then (Inr (), s')
         else (Inr (), s'\<lparr>objects := (objects s')(key := None)\<rparr>))"

section \<open>Completion and delivery clients\<close>

text \<open>
  \<^verbatim>\<open>client.responses.create(prompt={"id": agent_id}, input=message,
  previous_response_id=...)\<close>. Building the client object (\<^verbatim>\<open>get_ai_client\<close>) makes no call.
\<close>

definition create_response :: "world \<Rightarrow> json \<Rightarrow> json \<Rightarrow> json \<Rightarrow> (string \<times> string) io" where
  "create_response w agent_id message previous_response_id s =
     (responses_create w agent_id message previous_response_id,
      record_call (ResponsesCreate agent_id message previous_response_id) s)"

definition get_ai_response :: "world \<Rightarrow> json \<Rightarrow> json \<Rightarrow> sys \<Rightarrow> string \<times> sys" where
  "get_ai_response w message chat_id s =
     (case
        io_bind (get_dialog_state w chat_id) (\<lambda>state.
        io_bind (io_lift (py_get state ''agent_id'' JNull)) (\<lambda>agent_id.
        if \<not> py_truthy agent_id then io_return TEXT_NO_AGENT
        else
          io_bind (io_lift (py_get state ''previous_response_id'' JNull)) (\<lambda>previous.
          io_bind (create_response w agent_id message previous) (\<lambda>(response_id, output_text).
          io_bind (io_lift (py_get state ''message_count'' (JInt 0))) (\<lambda>message_count.
          io_bind (io_lift (py_add_one message_count)) (\<lambda>message_count'.
          io_bind (save_dialog_state w chat_id
                     (JObj [(''previous_response_id'', JStr response_id),
                            (''message_count'', message_count'),
                            (''agent_id'', agent_id)])) (\<lambda>_.
          io_return output_text))))))) s
      of
        (Inr text, s') \<Rightarrow> (text, s')
      | (Inl e, s') \<Rightarrow> (TEXT_ERROR_PREFIX @ str_of_exn w e, s'))"

definition post :: "world \<Rightarrow> string \<Rightarrow> json \<Rightarrow> json io" where
  "post w method payload s =
     (Inr (post_response w method payload), record_call (Post method payload) s)"

definition send_telegram_message :: "world \<Rightarrow> json \<Rightarrow> string \<Rightarrow> json \<Rightarrow> json io" where
  "send_telegram_message w chat_id text reply_markup =
     post w ''sendMessage''
       (JObj ([(''chat_id'', chat_id), (''text'', JStr text), (''parse_mode'', JStr ''Markdown'')]
              @ (if py_truthy reply_markup
                 then [(''reply_markup'', JStr (json_dumps w reply_markup))] else [])))"

definition answer_callback_query :: "world \<Rightarrow> json \<Rightarrow> json \<Rightarrow> json io" where
  "answer_callback_query w callback_query_id text =
     post w ''answerCallbackQuery''
       (JObj ([(''callback_query_id'', callback_query_id)]
              @ (if py_truthy text then [(''text'', text)] else [])))"

definition edit_message_text :: "world \<Rightarrow> json \<Rightarrow> json \<Rightarrow> string \<Rightarrow> json \<Rightarrow> json io" where
  "edit_message_text w chat_id message_id text reply_markup =
     post w ''editMessageText''
       (JObj ([(''chat_id'', chat_id), (''message_id'', message_id), (''text'', JStr text),
               (''parse_mode'', JStr ''Markdown'')]
              @ (if py_truthy reply_markup
                 then [(''reply_markup'', JStr (json_dumps w reply_markup))] else [])))"

definition send_typing_action :: "world \<Rightarrow> json \<Rightarrow> unit io" where
  "send_typing_action w chat_id =
     io_bind (post w ''sendChatAction''
                (JObj [(''chat_id'', chat_id), (''action'', JStr ''typing'')]))
       (\<lambda>_. io_return ())"

section \<open>Keyboards\<close>

definition get_main_menu :: json where
  "get_main_menu =
     JObj [(''keyboard'',
            JList [JList [JObj [(''text'', JStr LABEL_NEW)], JObj [(''text'', JStr LABEL_AGENTS)]],
                   JList [JObj [(''text'', JStr LABEL_STATUS)], JObj [(''text'', JStr LABEL_HELP)]]]),
           (''resize_keyboard'', JBool True),
           (''one_time_keyboard'', JBool False)]"

text \<open>One row with one button for an item of the registry.\<close>

definition agent_button :: "world \<Rightarrow> json \<Rightarrow> string \<times> json \<Rightarrow> json" where
  "agent_button w current_agent_id item =
     (case item of (agent_id, agent_name) \<Rightarrow>
        JList [JObj [(''text'',
                      if JStr agent_id = current_agent_id
                      then JStr (CHECK_MARK @ py_str w agent_name) else agent_name),
                     (''callback_data'', JStr (''agent:'' @ agent_id))]])"

definition get_agents_inline_keyboard :: "world \<Rightarrow> json \<Rightarrow> exn + json" where
  "get_agents_inline_keyboard w current_agent_id =
     (case py_items (get_agents w) of
        Inl e \<Rightarrow> Inl e
      | Inr items \<Rightarrow>
          Inr (JObj [(''inline_keyboard'', JList (map (agent_button w current_agent_id) items))]))"

section \<open>Commands\<close>

definition agent_name_of :: "json \<Rightarrow> json \<Rightarrow> exn + json" where
  \<comment> \<open>\<^verbatim>\<open>agents.get(agent_id, "...") if agent_id else "..."\<close>\<close>
  "agent_name_of agents agent_id =
     (if py_truthy agent_id then py_get_value agents agent_id (JStr TEXT_NOT_SELECTED)
      else Inr (JStr TEXT_NOT_SELECTED))"

definition fresh_state :: "json \<Rightarrow> json" where
  \<comment> \<open>the dict literal written by the start and new-dialog commands and by an agent switch\<close>
  "fresh_state agent_id =
     JObj [(''previous_response_id'', JNull), (''message_count'', JInt 0),
           (''agent_id'', agent_id)]"

text \<open>\<^verbatim>\<open>handle_command\<close> returns a dict, or \<^verbatim>\<open>None\<close> when the text is no command.\<close>

definition handle_command :: "world \<Rightarrow> json \<Rightarrow> json \<Rightarrow> json io" where
  "handle_command w chat_id command =
     (if command \<in> set [JStr ''/start''] then
        io_bind (get_dialog_state w chat_id) (\<lambda>state.
        io_bind (io_lift (py_get state ''agent_id'' JNull)) (\<lambda>loaded_agent.
        io_bind (io_lift (if \<not> py_truthy loaded_agent \<and> py_truthy (get_agents w)
                          then py_first_key (get_agents w) else Inr loaded_agent)) (\<lambda>agent_id.
        io_bind (save_dialog_state w chat_id (fresh_state agent_id)) (\<lambda>_.
        io_bind (io_lift (agent_name_of (get_agents w) agent_id)) (\<lambda>agent_name.
        io_bind (send_telegram_message w chat_id
                   (TEXT_START_HEAD @ py_str w agent_name @ TEXT_START_TAIL) get_main_menu) (\<lambda>_.
        io_return (JObj [(''ok'', JBool True), (''action'', JStr ''start'')])))))))
      else if command \<in> set [JStr LABEL_NEW, JStr ''/new''] then
        io_bind (get_dialog_state w chat_id) (\<lambda>state.
        io_bind (io_lift (py_get state ''agent_id'' JNull)) (\<lambda>agent_id.
        io_bind (save_dialog_state w chat_id (fresh_state agent_id)) (\<lambda>_.
        io_bind (send_telegram_message w chat_id TEXT_NEW get_main_menu) (\<lambda>_.
        io_return (JObj [(''ok'', JBool True), (''action'', JStr ''new'')])))))
      else if command \<in> set [JStr LABEL_AGENTS, JStr ''/agents''] then
        io_bind (get_dialog_state w chat_id) (\<lambda>state.
        io_bind (io_lift (py_get state ''agent_id'' JNull)) (\<lambda>current_agent.
        io_bind (io_lift (get_agents_inline_keyboard w current_agent)) (\<lambda>keyboard.
        io_bind (send_telegram_message w chat_id TEXT_AGENTS keyboard) (\<lambda>_.
        io_return (JObj [(''ok'', JBool True), (''action'', JStr ''agents'')])))))
      else if command \<in> set [JStr ''/status'', JStr LABEL_STATUS] then
        io_bind (get_dialog_state w chat_id) (\<lambda>state.
        io_bind (io_lift (py_get state ''message_count'' (JInt 0))) (\<lambda>msg_count.
        io_bind (io_lift (py_get state ''previous_response_id'' JNull)) (\<lambda>previous.
        io_bind (io_lift (py_get state ''agent_id'' JNull)) (\<lambda>agent_id.
        io_bind (io_lift (agent_name_of (get_agents w) agent_id)) (\<lambda>agent_name.
        io_bind (send_telegram_message w chat_id
                   (TEXT_STATUS_HEAD @ py_str w agent_name
                    @ TEXT_STATUS_COUNT @ py_str w msg_count
                    @ TEXT_STATUS_CONTEXT @ (if py_truthy previous then TEXT_YES else TEXT_NO))
                   get_main_menu) (\<lambda>_.
        io_return (JObj [(''ok'', JBool True), (''action'', JStr ''status'')])))))))
      else if command \<in> set [JStr ''/help'', JStr LABEL_HELP] then
        io_bind (send_telegram_message w chat_id TEXT_HELP get_main_menu) (\<lambda>_.
        io_return (JObj [(''ok'', JBool True), (''action'', JStr ''help'')]))
      else io_return JNull)"

section \<open>Callbacks\<close>

definition handle_callback_query :: "world \<Rightarrow> json \<Rightarrow> json io" where
  "handle_callback_query w callback_query =
     io_bind (io_lift (py_get callback_query ''id'' JNull)) (\<lambda>callback_id.
     io_bind (io_lift (py_get callback_query ''data'' (JStr ''''))) (\<lambda>data.
     io_bind (io_lift (py_get callback_query ''message'' (JObj []))) (\<lambda>message.
     io_bind (io_lift (py_get message ''chat'' (JObj []))) (\<lambda>chat.
     io_bind (io_lift (py_get chat ''id'' JNull)) (\<lambda>chat_id.
     io_bind (io_lift (py_get message ''message_id'' JNull)) (\<lambda>message_id.
     if \<not> py_truthy chat_id \<or> \<not> py_truthy data then
       io_return (JObj [(''ok'', JBool True), (''message'', JStr ''Invalid callback'')])
     else
       io_bind (io_lift (py_startswith data ''agent:'')) (\<lambda>is_agent.
       if is_agent then
         io_bind (io_lift (list_index_1 (split_colon_once (case data of JStr d \<Rightarrow> d | _ \<Rightarrow> [])))) (\<lambda>agent_id.
         io_bind (io_lift (py_contains (get_agents w) agent_id)) (\<lambda>known.
         if \<not> known then
           io_bind (answer_callback_query w callback_id (JStr NOTICE_NOT_FOUND)) (\<lambda>_.
           io_return (JObj [(''ok'', JBool False), (''message'', JStr ''Agent not found'')]))
         else
           io_bind (get_dialog_state w chat_id) (\<lambda>state.
           io_bind (io_lift (py_get state ''agent_id'' JNull)) (\<lambda>old_agent.
           io_bind (if old_agent \<noteq> JStr agent_id then
                      io_bind (save_dialog_state w chat_id (fresh_state (JStr agent_id))) (\<lambda>_.
                      answer_callback_query w callback_id (JStr NOTICE_CHANGED))
                    else answer_callback_query w callback_id (JStr NOTICE_ALREADY)) (\<lambda>_.
           io_bind (io_lift (py_index (get_agents w) agent_id)) (\<lambda>agent_name.
           io_bind (io_lift (get_agents_inline_keyboard w (JStr agent_id))) (\<lambda>keyboard.
           io_bind (edit_message_text w chat_id message_id
                      (TEXT_SELECTED_HEAD @ py_str w agent_name @ TEXT_SELECTED_TAIL)
                      keyboard) (\<lambda>_.
           io_return (JObj [(''ok'', JBool True), (''action'', JStr ''agent_selected''),
                            (''agent_id'', JStr agent_id)])))))))))
       else
         io_bind (answer_callback_query w callback_id JNull) (\<lambda>_.
         io_return (JObj [(''ok'', JBool True), (''message'', JStr ''Unknown callback'')])))))))))"

section \<open>Webhook\<close>

definition process_message :: "world \<Rightarrow> json \<Rightarrow> json io" where
  "process_message w update =
     io_bind (io_lift (py_contains update ''callback_query'')) (\<lambda>is_callback.
     if is_callback then
       io_bind (io_lift (py_index update ''callback_query'')) (handle_callback_query w)
     else
       io_bind (io_lift (py_get update ''message'' (JObj []))) (\<lambda>message.
       io_bind (io_lift (py_get message ''chat'' (JObj []))) (\<lambda>chat.
       io_bind (io_lift (py_get chat ''id'' JNull)) (\<lambda>chat_id.
       io_bind (io_lift (py_get message ''text'' (JStr ''''))) (\<lambda>text.
       if \<not> py_truthy chat_id \<or> \<not> py_truthy text then
         io_return (JObj [(''ok'', JBool True), (''message'', JStr ''No message to process'')])
       else
         io_bind (handle_command w chat_id text) (\<lambda>command_result.
         if py_truthy command_result then io_return command_result
         else
           io_bind (send_typing_action w chat_id) (\<lambda>_.
           io_bind (\<lambda>s. case get_ai_response w text chat_id s of (r, s') \<Rightarrow> (Inr r, s')) (\<lambda>ai_response.
           io_bind (send_telegram_message w chat_id ai_response get_main_menu) (\<lambda>_.
           io_return (JObj [(''ok'', JBool True), (''message'', JStr ''Response sent'')]))))))))))"

record response =
  statusCode :: int
  headers :: "(string \<times> string) list"
  body :: string

definition handler :: "world \<Rightarrow> json \<Rightarrow> sys \<Rightarrow> response \<times> sys" where
  "handler w event s =
     (case
        io_bind (io_lift (py_get event ''body'' JNull)) (\<lambda>raw.
        io_bind (case raw of
                   JStr t \<Rightarrow> io_lift (json_loads w t)
                 | _ \<Rightarrow> io_lift (py_get event ''body'' (JObj []))) (\<lambda>decoded.
        process_message w decoded)) s
      of
        (Inr result, s') \<Rightarrow>
          (\<lparr>statusCode = 200, headers = [(''Content-Type'', ''application/json'')],
            body = json_dumps w result\<rparr>, s')
      | (Inl e, s') \<Rightarrow>
          (\<lparr>statusCode = 500, headers = [(''Content-Type'', ''application/json'')],
            body = json_dumps w (JObj [(''ok'', JBool False),
                                       (''error'', JStr (str_of_exn w e))])\<rparr>, s'))"

section \<open>An example world\<close>

text \<open>
  A world to run the handler in: a serialiser that writes strings unescaped, a decoder
  that knows the texts of the registry and of two stored dialog states and rejects every
  other text, a store that answers, and a completion API that fails on the input
  \<^verbatim>\<open>boom\<close> and otherwise answers \<^verbatim>\<open>hello\<close> under the response id \<^verbatim>\<open>t2\<close>.
\<close>

fun demo_dumps :: "json \<Rightarrow> string"
  and demo_dumps_list :: "json list \<Rightarrow> string"
  and demo_dumps_items :: "(string \<times> json) list \<Rightarrow> string" where
  "demo_dumps JNull = ''null''"
| "demo_dumps (JBool b) = (if b then ''true'' else ''false'')"
| "demo_dumps (JInt i) = str_of_int i"
| "demo_dumps (JStr s) = [CHR 0x22] @ s @ [CHR 0x22]"
| "demo_dumps (JList xs) = ''['' @ demo_dumps_list xs @ '']''"
| "demo_dumps (JObj kvs) = ''{'' @ demo_dumps_items kvs @ ''}''"
| "demo_dumps_list [] = ''''"
| "demo_dumps_list [x] = demo_dumps x"
| "demo_dumps_list (x # y # xs) = demo_dumps x @ '', '' @ demo_dumps_list (y # xs)"
| "demo_dumps_items [] = ''''"
| "demo_dumps_items [(k, v)] = [CHR 0x22] @ k @ [CHR 0x22] @ '': '' @ demo_dumps v"
| "demo_dumps_items ((k, v) # kv # kvs) =
     [CHR 0x22] @ k @ [CHR 0x22] @ '': '' @ demo_dumps v @ '', '' @ demo_dumps_items (kv # kvs)"

definition demo_agents :: json where
  "demo_agents = JObj [(''a1'', JStr ''Helper''), (''a2'', JStr ''Coder'')]"

definition demo_state :: json where
  "demo_state =
     JObj [(''previous_response_id'', JStr ''t1''), (''message_count'', JInt 3),
           (''agent_id'', JStr ''a1'')]"

definition demo_state_no_agent :: json where
  "demo_state_no_agent =
     JObj [(''previous_response_id'', JNull), (''message_count'', JInt 0),
           (''agent_id'', JNull)]"

definition demo_loads :: "string \<Rightarrow> exn + json" where
  "demo_loads t =
     (if t = demo_dumps demo_agents then Inr demo_agents
      else if t = demo_dumps demo_state then Inr demo_state
      else if t = demo_dumps demo_state_no_agent then Inr demo_state_no_agent
      else Inl (Failure ''JSONDecodeError''))"

definition demo_create :: "json \<Rightarrow> json \<Rightarrow> json \<Rightarrow> exn + string \<times> string" where
  "demo_create agent_id message previous =
     (if message = JStr ''boom'' then Inl (Failure ''quota exceeded'')
      else Inr (''t2'', ''hello''))"

definition demo_world :: world where
  "demo_world =
     \<lparr>AGENTS_JSON = Some (demo_dumps demo_agents),
      json_loads = demo_loads,
      json_dumps = demo_dumps,
      py_repr = demo_dumps,
      s3_get_fails = False,
      s3_put_fails = False,
      responses_create = demo_create,
      post_response = (\<lambda>method payload. JObj [(''ok'', JBool True)])\<rparr>"

text \<open>The same world without the variable \<^verbatim>\<open>AGENTS_JSON\<close>: its registry is empty.\<close>

definition bare_world :: world where
  "bare_world = demo_world\<lparr>AGENTS_JSON := None\<rparr>"

definition empty_store :: sys where
  "empty_store = \<lparr>objects = Map.empty, calls = []\<rparr>"

definition demo_store :: sys where
  "demo_store =
     \<lparr>objects = [''dialogs/42.json'' \<mapsto> demo_dumps demo_state,
                 ''dialogs/7.json'' \<mapsto> demo_dumps demo_state_no_agent,
                 ''dialogs/9.json'' \<mapsto> ''{not json''],
      calls = []\<rparr>"

section \<open>Notions used by the properties\<close>

text \<open>The state that \<open>get_dialog_state\<close> returns when it is called in a given state.\<close>

definition loaded_state :: "world \<Rightarrow> sys \<Rightarrow> json \<Rightarrow> exn + json" where
  "loaded_state w s chat_id = fst (get_dialog_state w chat_id s)"

text \<open>The calls made between two states of one run.\<close>

definition new_calls :: "sys \<Rightarrow> sys \<Rightarrow> call list" where
  "new_calls s s' = drop (length (calls s)) (calls s')"

text \<open>The writes to the store among some calls.\<close>

fun is_put :: "call \<Rightarrow> bool" where
  "is_put (PutObject _ _) = True"
| "is_put _ = False"

text \<open>The acknowledgements of a callback among some calls.\<close>

fun is_acknowledgement :: "call \<Rightarrow> bool" where
  "is_acknowledgement (Post method _) = (method = ''answerCallbackQuery'')"
| "is_acknowledgement _ = False"

section \<open>Basic facts\<close>

lemmas io_defs = io_bind_def io_lift_def io_return_def

lemma get_dialog_state_eq:
  "get_dialog_state w chat_id s =
     (loaded_state w s chat_id, record_call (GetObject (dialog_key w chat_id)) s)"
  by (simp add: loaded_state_def get_dialog_state_def s3_get_object_def io_bind_def io_lift_def
        Let_def split: option.splits sum.splits)

lemma loaded_state_record_call [simp]:
  "loaded_state w (record_call c s) chat_id = loaded_state w s chat_id"
  by (simp add: loaded_state_def get_dialog_state_def s3_get_object_def io_bind_def io_lift_def
        record_call_def Let_def split: option.splits sum.splits)

lemma loaded_state_calls_update [simp]:
  "loaded_state w (s\<lparr>calls := cs\<rparr>) chat_id = loaded_state w s chat_id"
  by (simp add: loaded_state_def get_dialog_state_def s3_get_object_def io_bind_def io_lift_def
        record_call_def Let_def split: option.splits sum.splits)

lemma handle_command_other:
  assumes "command \<notin> {JStr ''/start'', JStr LABEL_NEW, JStr ''/new'', JStr LABEL_AGENTS,
                        JStr ''/agents'', JStr ''/status'', JStr LABEL_STATUS, JStr ''/help'',
                        JStr LABEL_HELP}"
  shows "handle_command w chat_id command s = (Inr JNull, s)"
  using assms by (simp add: handle_command_def io_defs)

lemma new_calls_append [simp]:
  "new_calls s (s\<lparr>calls := calls s @ cs\<rparr>) = cs"
  by (simp add: new_calls_def)

subsection \<open>The example world\<close>

lemma demo_get_agents: "get_agents demo_world = demo_agents"
  by (simp add: get_agents_def demo_world_def demo_loads_def demo_agents_def)

lemma demo_dialog_key:
  "dialog_key demo_world (JInt 42) = ''dialogs/42.json''"
  "dialog_key demo_world (JInt 7) = ''dialogs/7.json''"
  "dialog_key demo_world (JInt 9) = ''dialogs/9.json''"
  "dialog_key demo_world (JInt 5) = ''dialogs/5.json''"
  by (simp_all add: dialog_key_def py_str_def str_of_int_def digits_of.simps)

lemma demo_loaded_state:
  "loaded_state demo_world demo_store (JInt 42) = Inr demo_state"
  "loaded_state demo_world demo_store (JInt 7) = Inr demo_state_no_agent"
  unfolding loaded_state_def get_dialog_state_def s3_get_object_def demo_dialog_key
  by (simp_all add: io_defs Let_def record_call_def demo_world_def demo_store_def demo_loads_def
        demo_state_def demo_state_no_agent_def demo_agents_def str_of_int_def digits_of.simps)

section \<open>Loading the dialog state\<close>

text \<open>
  Claim C7. When the store fails on the read, or has no object under the key of the
  conversation, or has one whose text does not decode, \<open>get_dialog_state\<close> returns (it
  does not raise) the default state: no previous response, a message count of 0, and as
  agent the first key of the registry, or \<^verbatim>\<open>None\<close> when the registry is empty. The
  registry is a mapping, as the data model has it.
\<close>

theorem get_dialog_state_default:
  assumes "s3_get_fails w \<or> objects s (dialog_key w chat_id) = None
           \<or> (\<exists>t e. objects s (dialog_key w chat_id) = Some t \<and> json_loads w t = Inl e)"
      and "get_agents w = JObj registry"
  shows "get_dialog_state w chat_id s =
           (Inr (JObj [(''previous_response_id'', JNull), (''message_count'', JInt 0),
                       (''agent_id'', case registry of [] \<Rightarrow> JNull | (k, _) # _ \<Rightarrow> JStr k)]),
            record_call (GetObject (dialog_key w chat_id)) s)"
  using assms
  by (auto simp add: get_dialog_state_def s3_get_object_def io_defs
        Let_def py_first_key_def split: option.splits sum.splits list.splits)

theorem get_dialog_state_default_witness:
  "objects demo_store (dialog_key demo_world (JInt 9)) = Some ''{not json''
   \<and> json_loads demo_world ''{not json'' = Inl (Failure ''JSONDecodeError'')
   \<and> get_agents demo_world = JObj [(''a1'', JStr ''Helper''), (''a2'', JStr ''Coder'')]
   \<and> get_dialog_state demo_world (JInt 9) demo_store =
         (Inr (JObj [(''previous_response_id'', JNull), (''message_count'', JInt 0),
                     (''agent_id'', JStr ''a1'')]),
          record_call (GetObject ''dialogs/9.json'') demo_store)"
proof -
  have k: "objects demo_store (dialog_key demo_world (JInt 9)) = Some ''{not json''"
    by (simp add: demo_dialog_key demo_store_def)
  have l: "json_loads demo_world ''{not json'' = Inl (Failure ''JSONDecodeError'')"
    by (simp add: demo_world_def demo_loads_def demo_agents_def demo_state_def
          demo_state_no_agent_def)
  have a: "get_agents demo_world = JObj [(''a1'', JStr ''Helper''), (''a2'', JStr ''Coder'')]"
    by (simp add: demo_get_agents demo_agents_def)
  from k l have h: "s3_get_fails demo_world
      \<or> objects demo_store (dialog_key demo_world (JInt 9)) = None
      \<or> (\<exists>t e. objects demo_store (dialog_key demo_world (JInt 9)) = Some t
                \<and> json_loads demo_world t = Inl e)"
    by blast
  show ?thesis
    using get_dialog_state_default [OF h a] k l a by (simp add: demo_dialog_key)
qed

section \<open>Free-form messages\<close>



text \<open>
  Claim C5. When the completion API raises, \<open>get_ai_response\<close> returns the error text
  followed by \<^verbatim>\<open>str(e)\<close>; the objects of the store are the same as before, and the calls
  made are the read of the store and the call of the API: nothing is written.
\<close>

theorem completion_failure_keeps_state:
  assumes "loaded_state w s chat_id = Inr state"
      and "py_get state ''agent_id'' JNull = Inr agent_id"
      and "py_truthy agent_id"
      and "py_get state ''previous_response_id'' JNull = Inr previous"
      and "responses_create w agent_id message previous = Inl e"
  shows "get_ai_response w message chat_id s =
           (TEXT_ERROR_PREFIX @ str_of_exn w e,
            s\<lparr>calls := calls s @ [GetObject (dialog_key w chat_id),
                                   ResponsesCreate agent_id message previous]\<rparr>)"
  using assms
  by (simp add: get_ai_response_def get_dialog_state_eq io_defs create_response_def record_call_def)

theorem completion_failure_keeps_state_witness:
  "loaded_state demo_world demo_store (JInt 42) = Inr demo_state
   \<and> py_get demo_state ''agent_id'' JNull = Inr (JStr ''a1'')
   \<and> py_truthy (JStr ''a1'')
   \<and> py_get demo_state ''previous_response_id'' JNull = Inr (JStr ''t1'')
   \<and> responses_create demo_world (JStr ''a1'') (JStr ''boom'') (JStr ''t1'')
         = Inl (Failure ''quota exceeded'')
   \<and> get_ai_response demo_world (JStr ''boom'') (JInt 42) demo_store =
         (TEXT_ERROR_PREFIX @ ''quota exceeded'',
          demo_store\<lparr>calls := [GetObject ''dialogs/42.json'',
                                 ResponsesCreate (JStr ''a1'') (JStr ''boom'') (JStr ''t1'')]\<rparr>)"
proof -
  have a: "py_get demo_state ''agent_id'' JNull = Inr (JStr ''a1'')"
    by (simp add: py_get_def demo_state_def)
  have t: "py_truthy (JStr ''a1'')" by simp
  have p: "py_get demo_state ''previous_response_id'' JNull = Inr (JStr ''t1'')"
    by (simp add: py_get_def demo_state_def)
  have r: "responses_create demo_world (JStr ''a1'') (JStr ''boom'') (JStr ''t1'')
             = Inl (Failure ''quota exceeded'')"
    by (simp add: demo_world_def demo_create_def)
  have c: "calls demo_store = []" by (simp add: demo_store_def)
  show ?thesis
    using completion_failure_keeps_state [OF demo_loaded_state(1) a t p r] a p r c
    by (simp add: demo_loaded_state demo_dialog_key str_of_exn_def)
qed

text \<open>
  Claim C4. A free-form message (a text that is no command) of a chat whose loaded state
  has an agent and a message count \<open>n\<close>, when the completion API succeeds and returns
  the response id \<open>t\<close> and the output text: the state written to the store has \<open>t\<close> as
  previous response id, \<open>n + 1\<close> as message count and the loaded agent, and the message
  sent to the chat has the output text as its text.
\<close>

theorem completion_success_advances:
  assumes "update = JObj u"
      and "''callback_query'' \<notin> set (map fst u)"
      and "map_of u ''message'' = Some message"
      and "py_get message ''chat'' (JObj []) = Inr chat"
      and "py_get chat ''id'' JNull = Inr chat_id"
      and "py_get message ''text'' (JStr '''') = Inr msg"
      and "py_truthy chat_id" and "py_truthy msg"
      and "msg \<notin> {JStr ''/start'', JStr LABEL_NEW, JStr ''/new'', JStr LABEL_AGENTS,
                     JStr ''/agents'', JStr ''/status'', JStr LABEL_STATUS, JStr ''/help'',
                     JStr LABEL_HELP}"
      and "loaded_state w s chat_id = Inr state"
      and "py_get state ''agent_id'' JNull = Inr agent_id"
      and "py_truthy agent_id"
      and "py_get state ''previous_response_id'' JNull = Inr previous"
      and "py_get state ''message_count'' (JInt 0) = Inr (JInt n)"
      and "responses_create w agent_id msg previous = Inr (t, output_text)"
      and "written = json_dumps w (JObj [(''previous_response_id'', JStr t),
                                         (''message_count'', JInt (n + 1)),
                                         (''agent_id'', agent_id)])"
  shows "process_message w update s =
           (Inr (JObj [(''ok'', JBool True), (''message'', JStr ''Response sent'')]),
            s\<lparr>objects := (if s3_put_fails w then objects s
                           else (objects s)(dialog_key w chat_id \<mapsto> written)),
              calls := calls s @
                [Post ''sendChatAction'' (JObj [(''chat_id'', chat_id), (''action'', JStr ''typing'')]),
                 GetObject (dialog_key w chat_id),
                 ResponsesCreate agent_id msg previous,
                 PutObject (dialog_key w chat_id) written,
                 Post ''sendMessage''
                   (JObj [(''chat_id'', chat_id), (''text'', JStr output_text),
                          (''parse_mode'', JStr ''Markdown''),
                          (''reply_markup'', JStr (json_dumps w get_main_menu))])]\<rparr>)"
proof -
  have menu: "py_truthy get_main_menu" by (simp add: get_main_menu_def)
  have ai: "get_ai_response w msg chat_id s' =
           (output_text,
            s'\<lparr>objects := (if s3_put_fails w then objects s'
                           else (objects s')(dialog_key w chat_id \<mapsto> written)),
              calls := calls s' @ [GetObject (dialog_key w chat_id),
                                   ResponsesCreate agent_id msg previous,
                                   PutObject (dialog_key w chat_id) written]\<rparr>)"
    if "loaded_state w s' chat_id = Inr state" for s'
    using that assms(11-16)
    by (simp add: get_ai_response_def get_dialog_state_eq io_defs create_response_def
          record_call_def save_dialog_state_def py_add_one_def Let_def)
  have m: "py_get update ''message'' (JObj []) = Inr message"
    using assms(1,3) by (simp add: py_get_def)
  have c: "py_contains update ''callback_query'' = Inr False"
    using assms(1,2) by (simp add: py_contains_def)
  show ?thesis
    using assms(4-8,10) m c menu
    by (simp add: process_message_def io_defs handle_command_other [OF assms(9)]
          send_typing_action_def post_def send_telegram_message_def ai record_call_def)
qed


theorem completion_success_advances_witness:
  "process_message demo_world
     (JObj [(''message'', JObj [(''chat'', JObj [(''id'', JInt 42)]), (''text'', JStr ''hi'')])])
     demo_store =
     (Inr (JObj [(''ok'', JBool True), (''message'', JStr ''Response sent'')]),
      demo_store\<lparr>objects := (objects demo_store)(''dialogs/42.json'' \<mapsto>
                   demo_dumps (JObj [(''previous_response_id'', JStr ''t2''),
                                     (''message_count'', JInt 4),
                                     (''agent_id'', JStr ''a1'')])),
        calls :=
          [Post ''sendChatAction'' (JObj [(''chat_id'', JInt 42), (''action'', JStr ''typing'')]),
           GetObject ''dialogs/42.json'',
           ResponsesCreate (JStr ''a1'') (JStr ''hi'') (JStr ''t1''),
           PutObject ''dialogs/42.json''
             (demo_dumps (JObj [(''previous_response_id'', JStr ''t2''),
                                (''message_count'', JInt 4),
                                (''agent_id'', JStr ''a1'')])),
           Post ''sendMessage''
             (JObj [(''chat_id'', JInt 42), (''text'', JStr ''hello''),
                    (''parse_mode'', JStr ''Markdown''),
                    (''reply_markup'', JStr (demo_dumps get_main_menu))])]\<rparr>)"
proof -
  have labels: "JStr ''hi'' \<notin> {JStr ''/start'', JStr LABEL_NEW, JStr ''/new'', JStr LABEL_AGENTS,
                     JStr ''/agents'', JStr ''/status'', JStr LABEL_STATUS, JStr ''/help'',
                     JStr LABEL_HELP}"
    by (simp add: LABEL_NEW_def LABEL_AGENTS_def LABEL_STATUS_def LABEL_HELP_def)
  have w: "json_dumps demo_world = demo_dumps" "\<not> s3_put_fails demo_world"
    "responses_create demo_world (JStr ''a1'') (JStr ''hi'') (JStr ''t1'') = Inr (''t2'', ''hello'')"
    by (simp_all add: demo_world_def demo_create_def)
  have c: "calls demo_store = []" by (simp add: demo_store_def)
  show ?thesis
    using completion_success_advances
      [where w = demo_world and s = demo_store and chat_id = "JInt 42" and msg = "JStr ''hi''"
         and u = "[(''message'', JObj [(''chat'', JObj [(''id'', JInt 42)]), (''text'', JStr ''hi'')])]"
         and message = "JObj [(''chat'', JObj [(''id'', JInt 42)]), (''text'', JStr ''hi'')]"
         and chat = "JObj [(''id'', JInt 42)]" and state = demo_state
         and agent_id = "JStr ''a1''" and previous = "JStr ''t1''" and n = 3
         and t = "''t2''" and output_text = "''hello''", OF refl _ _ _ _ _ _ _ labels demo_loaded_state(1) _ _ _ _ _ refl]
    by (simp add: py_get_def demo_state_def w c demo_dialog_key)
qed

lemma split_agent_data [simp]:
  "list_index_1 (split_colon_once (''agent:'' @ a)) = Inr a"
  "list_index_1 (split_colon_once
     (CHR ''a'' # CHR ''g'' # CHR ''e'' # CHR ''n'' # CHR ''t'' # CHR '':'' # a)) = Inr a"
  by (simp_all add: list_index_1_def split_colon_once_def)

lemma handle_command_new:
  assumes "command \<in> {JStr LABEL_NEW, JStr ''/new''}"
      and "loaded_state w s chat_id = Inr state"
      and "py_get state ''agent_id'' JNull = Inr loaded_agent"
  shows "handle_command w chat_id command s =
           (Inr (JObj [(''ok'', JBool True), (''action'', JStr ''new'')]),
            s\<lparr>objects := (if s3_put_fails w then objects s
                           else (objects s)(dialog_key w chat_id \<mapsto>
                                  json_dumps w (fresh_state loaded_agent))),
              calls := calls s @
                [GetObject (dialog_key w chat_id),
                 PutObject (dialog_key w chat_id) (json_dumps w (fresh_state loaded_agent)),
                 Post ''sendMessage''
                   (JObj [(''chat_id'', chat_id), (''text'', JStr TEXT_NEW),
                          (''parse_mode'', JStr ''Markdown''),
                          (''reply_markup'', JStr (json_dumps w get_main_menu))])]\<rparr>)"
proof -
  have menu: "py_truthy get_main_menu" by (simp add: get_main_menu_def)
  have ns: "command \<noteq> JStr ''/start''"
    using assms(1) by (auto simp add: LABEL_NEW_def)
  show ?thesis
    using assms menu ns
    by (auto simp add: handle_command_def get_dialog_state_eq io_defs save_dialog_state_def
          send_telegram_message_def post_def record_call_def Let_def)
qed

lemma handle_callback_query_switch:
  assumes "map_of callback_query ''data'' = Some (JStr (''agent:'' @ agent_id))"
      and "py_get (JObj callback_query) ''id'' JNull = Inr callback_id"
      and "map_of callback_query ''message'' = Some message"
      and "py_get message ''chat'' (JObj []) = Inr chat"
      and "py_get chat ''id'' JNull = Inr chat_id"
      and "py_get message ''message_id'' JNull = Inr message_id"
      and "py_truthy chat_id"
      and "get_agents w = JObj registry"
      and "map_of registry agent_id = Some agent_name"
      and "loaded_state w s chat_id = Inr state"
      and "py_get state ''agent_id'' JNull = Inr loaded_agent"
      and "loaded_agent \<noteq> JStr agent_id"
  shows "handle_callback_query w (JObj callback_query) s =
           (Inr (JObj [(''ok'', JBool True), (''action'', JStr ''agent_selected''),
                       (''agent_id'', JStr agent_id)]),
            s\<lparr>objects := (if s3_put_fails w then objects s
                           else (objects s)(dialog_key w chat_id \<mapsto>
                                  json_dumps w (fresh_state (JStr agent_id)))),
              calls := calls s @
                [GetObject (dialog_key w chat_id),
                 PutObject (dialog_key w chat_id) (json_dumps w (fresh_state (JStr agent_id))),
                 Post ''answerCallbackQuery''
                   (JObj [(''callback_query_id'', callback_id), (''text'', JStr NOTICE_CHANGED)]),
                 Post ''editMessageText''
                   (JObj [(''chat_id'', chat_id), (''message_id'', message_id),
                          (''text'', JStr (TEXT_SELECTED_HEAD @ py_str w agent_name
                                           @ TEXT_SELECTED_TAIL)),
                          (''parse_mode'', JStr ''Markdown''),
                          (''reply_markup'',
                           JStr (json_dumps w (JObj [(''inline_keyboard'',
                              JList (map (agent_button w (JStr agent_id)) registry))])))])]\<rparr>)"
proof -
  have d: "py_get (JObj callback_query) ''data'' (JStr '''') = Inr (JStr (''agent:'' @ agent_id))"
    and m: "py_get (JObj callback_query) ''message'' (JObj []) = Inr message"
    using assms(1,3) by (simp_all add: py_get_def)
  have k: "py_contains (get_agents w) agent_id = Inr True"
    using assms(8,9) by (auto simp add: py_contains_def dest: map_of_SomeD intro: rev_image_eqI)
  have i: "py_index (get_agents w) agent_id = Inr agent_name"
    using assms(8,9) by (simp add: py_index_def)
  have n: "NOTICE_CHANGED \<noteq> []" by (simp add: NOTICE_CHANGED_def)
  show ?thesis
    using assms(2,4-8,10-12) d m k i n
    by (simp add: handle_callback_query_def get_dialog_state_eq io_defs save_dialog_state_def
          answer_callback_query_def edit_message_text_def post_def record_call_def Let_def
          py_startswith_def get_agents_inline_keyboard_def py_items_def)
qed


section \<open>Resets\<close>

text \<open>
  Claim C6. Whatever the loaded state holds as previous response and message count: the
  new-dialog command makes one write, of a state with the loaded agent, no previous
  response and a message count of 0; and the selection of an agent of the registry other
  than the loaded one makes one write, of a state with the selected agent, no previous
  response and a message count of 0.
\<close>

theorem reset_zeroes_context:
  assumes "loaded_state w s chat_id = Inr state"
      and "py_get state ''agent_id'' JNull = Inr loaded_agent"
  shows "(command \<in> {JStr LABEL_NEW, JStr ''/new''} \<longrightarrow>
            filter is_put (new_calls s (snd (handle_command w chat_id command s))) =
              [PutObject (dialog_key w chat_id)
                 (json_dumps w (JObj [(''previous_response_id'', JNull),
                                      (''message_count'', JInt 0),
                                      (''agent_id'', loaded_agent)]))])
       \<and> (map_of callback_query ''data'' = Some (JStr (''agent:'' @ agent_id))
            \<and> map_of callback_query ''message'' = Some (JObj message)
            \<and> map_of message ''chat'' = Some (JObj chat)
            \<and> map_of chat ''id'' = Some chat_id \<and> py_truthy chat_id
            \<and> get_agents w = JObj registry \<and> agent_id \<in> set (map fst registry)
            \<and> loaded_agent \<noteq> JStr agent_id \<longrightarrow>
            filter is_put
              (new_calls s (snd (handle_callback_query w (JObj callback_query) s))) =
              [PutObject (dialog_key w chat_id)
                 (json_dumps w (JObj [(''previous_response_id'', JNull),
                                      (''message_count'', JInt 0),
                                      (''agent_id'', JStr agent_id)]))])"
proof (intro conjI impI)
  assume "command \<in> {JStr LABEL_NEW, JStr ''/new''}"
  from handle_command_new [OF this assms]
  show "filter is_put (new_calls s (snd (handle_command w chat_id command s))) =
              [PutObject (dialog_key w chat_id)
                 (json_dumps w (JObj [(''previous_response_id'', JNull),
                                      (''message_count'', JInt 0),
                                      (''agent_id'', loaded_agent)]))]"
    by (simp add: fresh_state_def new_calls_def)
next
  assume h: "map_of callback_query ''data'' = Some (JStr (''agent:'' @ agent_id))
            \<and> map_of callback_query ''message'' = Some (JObj message)
            \<and> map_of message ''chat'' = Some (JObj chat)
            \<and> map_of chat ''id'' = Some chat_id \<and> py_truthy chat_id
            \<and> get_agents w = JObj registry \<and> agent_id \<in> set (map fst registry)
            \<and> loaded_agent \<noteq> JStr agent_id"
  then obtain agent_name where n: "map_of registry agent_id = Some agent_name"
    by (metis domD dom_map_of_conv_image_fst set_map)
  have c: "py_get (JObj message) ''chat'' (JObj []) = Inr (JObj chat)"
    and i: "py_get (JObj chat) ''id'' JNull = Inr chat_id"
    using h by (simp_all add: py_get_def)
  obtain callback_id message_id where
    "py_get (JObj callback_query) ''id'' JNull = Inr callback_id"
    "py_get (JObj message) ''message_id'' JNull = Inr message_id"
    by (simp add: py_get_def)
  note ids = this
  have d: "map_of callback_query ''data'' = Some (JStr (''agent:'' @ agent_id))"
    and m: "map_of callback_query ''message'' = Some (JObj message)"
    and t: "py_truthy chat_id" and g: "get_agents w = JObj registry"
    and ne: "loaded_agent \<noteq> JStr agent_id"
    using h by simp_all
  from handle_callback_query_switch [OF d ids(1) m c i ids(2) t g n assms ne]
  show "filter is_put
              (new_calls s (snd (handle_callback_query w (JObj callback_query) s))) =
              [PutObject (dialog_key w chat_id)
                 (json_dumps w (JObj [(''previous_response_id'', JNull),
                                      (''message_count'', JInt 0),
                                      (''agent_id'', JStr agent_id)]))]"
    by (simp add: fresh_state_def new_calls_def)
qed


theorem reset_zeroes_context_witness:
  "filter is_put (new_calls demo_store
      (snd (handle_command demo_world (JInt 42) (JStr ''/new'') demo_store))) =
     [PutObject ''dialogs/42.json''
        (demo_dumps (JObj [(''previous_response_id'', JNull), (''message_count'', JInt 0),
                           (''agent_id'', JStr ''a1'')]))]
   \<and> filter is_put (new_calls demo_store
      (snd (handle_callback_query demo_world
              (JObj [(''id'', JStr ''cb1''), (''data'', JStr ''agent:a2''),
                     (''message'', JObj [(''chat'', JObj [(''id'', JInt 42)]),
                                         (''message_id'', JInt 7)])])
              demo_store))) =
     [PutObject ''dialogs/42.json''
        (demo_dumps (JObj [(''previous_response_id'', JNull), (''message_count'', JInt 0),
                           (''agent_id'', JStr ''a2'')]))]"
proof -
  have a: "py_get demo_state ''agent_id'' JNull = Inr (JStr ''a1'')"
    by (simp add: py_get_def demo_state_def)
  have g: "get_agents demo_world = JObj [(''a1'', JStr ''Helper''), (''a2'', JStr ''Coder'')]"
    by (simp add: demo_get_agents demo_agents_def)
  have w: "json_dumps demo_world = demo_dumps" by (simp add: demo_world_def)
  show ?thesis
    using reset_zeroes_context [OF demo_loaded_state(1) a,
        where command = "JStr ''/new''" and agent_id = "''a2''"
          and callback_query = "[(''id'', JStr ''cb1''), (''data'', JStr ''agent:a2''),
                     (''message'', JObj [(''chat'', JObj [(''id'', JInt 42)]),
                                         (''message_id'', JInt 7)])]"
          and message = "[(''chat'', JObj [(''id'', JInt 42)]), (''message_id'', JInt 7)]"
          and chat = "[(''id'', JInt 42)]"
          and registry = "[(''a1'', JStr ''Helper''), (''a2'', JStr ''Coder'')]"]
    by (simp add: g w demo_dialog_key)
qed

lemma dialog_key_int:
  "dialog_key w (JInt 42) = ''dialogs/42.json''"
  "dialog_key w (JInt 7) = ''dialogs/7.json''"
  by (simp_all add: dialog_key_def py_str_def str_of_int_def digits_of.simps)

section \<open>The list of agents\<close>

lemma handle_command_agents:
  assumes "command \<in> {JStr LABEL_AGENTS, JStr ''/agents''}"
      and "get_agents w = JObj registry"
      and "loaded_state w s chat_id = Inr state"
      and "py_get state ''agent_id'' JNull = Inr current"
  shows "handle_command w chat_id command s =
           (Inr (JObj [(''ok'', JBool True), (''action'', JStr ''agents'')]),
            s\<lparr>calls := calls s @
                [GetObject (dialog_key w chat_id),
                 Post ''sendMessage''
                   (JObj [(''chat_id'', chat_id), (''text'', JStr TEXT_AGENTS),
                          (''parse_mode'', JStr ''Markdown''),
                          (''reply_markup'',
                           JStr (json_dumps w (JObj [(''inline_keyboard'',
                              JList (map (agent_button w current) registry))])))])]\<rparr>)"
proof -
  have ns: "command \<noteq> JStr ''/start''" "command \<noteq> JStr ''/new''" "command \<noteq> JStr LABEL_NEW"
    using assms(1) by (auto simp add: LABEL_NEW_def LABEL_AGENTS_def)
  show ?thesis
    using assms ns
    by (auto simp add: handle_command_def get_dialog_state_eq io_defs
          send_telegram_message_def post_def record_call_def Let_def
          get_agents_inline_keyboard_def py_items_def)
qed

text \<open>
  Claim C9, as the code has it. The agents-list command renders the keyboard whatever the
  registry holds, an empty registry too: it sends one message whose keyboard has one row
  with one button for each entry of the registry, in the order of the registry, the
  button of the loaded agent marked, every other button with the name alone; it writes
  nothing to the store.
\<close>

theorem agents_command_renders_registry:
  assumes "command \<in> {JStr LABEL_AGENTS, JStr ''/agents''}"
      and "get_agents w = JObj registry"
      and "loaded_state w s chat_id = Inr state"
      and "py_get state ''agent_id'' JNull = Inr current"
  shows "\<exists>buttons.
           handle_command w chat_id command s =
             (Inr (JObj [(''ok'', JBool True), (''action'', JStr ''agents'')]),
              s\<lparr>calls := calls s @
                  [GetObject (dialog_key w chat_id),
                   Post ''sendMessage''
                     (JObj [(''chat_id'', chat_id), (''text'', JStr TEXT_AGENTS),
                            (''parse_mode'', JStr ''Markdown''),
                            (''reply_markup'',
                             JStr (json_dumps w
                                     (JObj [(''inline_keyboard'', JList buttons)])))])]\<rparr>)
           \<and> length buttons = length registry
           \<and> (\<forall>i < length registry.
                 buttons ! i =
                   JList [JObj [(''text'',
                                 if JStr (fst (registry ! i)) = current
                                 then JStr (CHECK_MARK @ py_str w (snd (registry ! i)))
                                 else snd (registry ! i)),
                                (''callback_data'', JStr (''agent:'' @ fst (registry ! i)))]])"
  using handle_command_agents [OF assms]
  by (intro exI [of _ "map (agent_button w current) registry"])
     (simp add: agent_button_def split_beta)


theorem agents_command_renders_registry_witness:
  "handle_command demo_world (JInt 42) (JStr ''/agents'') demo_store =
     (Inr (JObj [(''ok'', JBool True), (''action'', JStr ''agents'')]),
      demo_store\<lparr>calls :=
        [GetObject ''dialogs/42.json'',
         Post ''sendMessage''
           (JObj [(''chat_id'', JInt 42), (''text'', JStr TEXT_AGENTS),
                  (''parse_mode'', JStr ''Markdown''),
                  (''reply_markup'',
                   JStr (demo_dumps (JObj [(''inline_keyboard'',
                     JList [JList [JObj [(''text'', JStr (CHECK_MARK @ ''Helper'')),
                                         (''callback_data'', JStr ''agent:a1'')]],
                            JList [JObj [(''text'', JStr ''Coder''),
                                         (''callback_data'', JStr ''agent:a2'')]]])])))])]\<rparr>)"
proof -
  have c: "JStr ''/agents'' \<in> {JStr LABEL_AGENTS, JStr ''/agents''}" by simp
  have g: "get_agents demo_world = JObj [(''a1'', JStr ''Helper''), (''a2'', JStr ''Coder'')]"
    by (simp add: demo_get_agents demo_agents_def)
  have a: "py_get demo_state ''agent_id'' JNull = Inr (JStr ''a1'')"
    by (simp add: py_get_def demo_state_def)
  from agents_command_renders_registry [OF c g demo_loaded_state(1) a]
  obtain buttons where
    r: "handle_command demo_world (JInt 42) (JStr ''/agents'') demo_store =
         (Inr (JObj [(''ok'', JBool True), (''action'', JStr ''agents'')]),
          demo_store\<lparr>calls := calls demo_store @
            [GetObject (dialog_key demo_world (JInt 42)),
             Post ''sendMessage''
               (JObj [(''chat_id'', JInt 42), (''text'', JStr TEXT_AGENTS),
                      (''parse_mode'', JStr ''Markdown''),
                      (''reply_markup'',
                       JStr (json_dumps demo_world
                               (JObj [(''inline_keyboard'', JList buttons)])))])]\<rparr>)"
    and l: "length buttons = 2"
    and b: "\<forall>i < 2. buttons ! i =
               JList [JObj [(''text'',
                   if JStr (fst ([(''a1'', JStr ''Helper''), (''a2'', JStr ''Coder'')] ! i)) = JStr ''a1''
                   then JStr (CHECK_MARK @ py_str demo_world
                          (snd ([(''a1'', JStr ''Helper''), (''a2'', JStr ''Coder'')] ! i)))
                   else snd ([(''a1'', JStr ''Helper''), (''a2'', JStr ''Coder'')] ! i)),
                 (''callback_data'',
                  JStr (''agent:'' @ fst ([(''a1'', JStr ''Helper''), (''a2'', JStr ''Coder'')] ! i)))]]"
    by auto
  from b have "buttons ! 0 = JList [JObj [(''text'', JStr (CHECK_MARK @ ''Helper'')),
                                         (''callback_data'', JStr ''agent:a1'')]]"
    and "buttons ! 1 = JList [JObj [(''text'', JStr ''Coder''),
                                    (''callback_data'', JStr ''agent:a2'')]]"
    by (simp_all add: py_str_def)
  with l have "buttons =
      [JList [JObj [(''text'', JStr (CHECK_MARK @ ''Helper'')),
                    (''callback_data'', JStr ''agent:a1'')]],
       JList [JObj [(''text'', JStr ''Coder''), (''callback_data'', JStr ''agent:a2'')]]]"
    by (cases buttons; cases "tl buttons"; cases "tl (tl buttons)") auto
  moreover have "json_dumps demo_world = demo_dumps" "calls demo_store = []"
    by (simp_all add: demo_world_def demo_store_def)
  ultimately show ?thesis
    using r by (simp add: dialog_key_int)
qed

theorem agents_command_empty_registry_counterexample:
  "get_agents bare_world = JObj []
   \<and> handle_command bare_world (JInt 42) (JStr ''/agents'') demo_store =
       (Inr (JObj [(''ok'', JBool True), (''action'', JStr ''agents'')]),
        demo_store\<lparr>calls :=
          [GetObject ''dialogs/42.json'',
           Post ''sendMessage''
             (JObj [(''chat_id'', JInt 42), (''text'', JStr TEXT_AGENTS),
                    (''parse_mode'', JStr ''Markdown''),
                    (''reply_markup'',
                     JStr (demo_dumps (JObj [(''inline_keyboard'', JList [])])))])]\<rparr>)"
proof -
  have g: "get_agents bare_world = JObj []"
    by (simp add: get_agents_def bare_world_def DEFAULT_AGENTS_def)
  have l: "loaded_state bare_world demo_store (JInt 42) = Inr demo_state"
    unfolding loaded_state_def get_dialog_state_def s3_get_object_def dialog_key_int
    by (simp add: io_defs Let_def record_call_def bare_world_def demo_world_def demo_store_def
          demo_loads_def demo_state_def demo_state_no_agent_def demo_agents_def
          str_of_int_def digits_of.simps)
  have a: "py_get demo_state ''agent_id'' JNull = Inr (JStr ''a1'')"
    by (simp add: py_get_def demo_state_def)
  have c: "JStr ''/agents'' \<in> {JStr LABEL_AGENTS, JStr ''/agents''}" by simp
  have "json_dumps bare_world = demo_dumps" "calls demo_store = []"
    by (simp_all add: bare_world_def demo_world_def demo_store_def)
  then show ?thesis
    using handle_command_agents [OF c g l a] g
    by (simp add: dialog_key_int)
qed

section \<open>Callbacks without an agent selection\<close>





section \<open>Bodies that are not an update\<close>

lemma process_message_no_keys:
  assumes "''message'' \<notin> set (map fst update)"
      and "''callback_query'' \<notin> set (map fst update)"
  shows "process_message w (JObj update) s =
           (Inr (JObj [(''ok'', JBool True), (''message'', JStr ''No message to process'')]), s)"
proof -
  have "map_of update ''message'' = None"
    using assms(1) by (simp add: map_of_eq_None_iff)
  then show ?thesis
    using assms(2) by (simp add: process_message_def io_defs py_contains_def py_get_def)
qed

text \<open>
  Claim C1, as the code has it. A body that is a string which \<^verbatim>\<open>json.loads\<close> rejects gives
  the response with status code 500 whose body carries the message of the exception; a
  body that is, or decodes to, a JSON object with neither a \<^verbatim>\<open>message\<close> nor a
  \<^verbatim>\<open>callback_query\<close> key (an envelope without a body counts as the empty object) gives
  the response with status code 200 and the result of no message to process. In both
  cases the state after the call is the state before it: no call is made and nothing is
  written.
\<close>

theorem malformed_body_response:
  "(map_of event ''body'' = Some (JStr t) \<and> json_loads w t = Inl e \<longrightarrow>
      handler w (JObj event) s =
        (\<lparr>statusCode = 500, headers = [(''Content-Type'', ''application/json'')],
          body = json_dumps w (JObj [(''ok'', JBool False),
                                     (''error'', JStr (str_of_exn w e))])\<rparr>, s))
   \<and> ((map_of event ''body'' = Some (JStr t) \<and> json_loads w t = Inr (JObj update)
         \<or> map_of event ''body'' = Some (JObj update)
         \<or> map_of event ''body'' = None \<and> update = [])
        \<and> ''message'' \<notin> set (map fst update)
        \<and> ''callback_query'' \<notin> set (map fst update) \<longrightarrow>
      handler w (JObj event) s =
        (\<lparr>statusCode = 200, headers = [(''Content-Type'', ''application/json'')],
          body = json_dumps w (JObj [(''ok'', JBool True),
                                     (''message'', JStr ''No message to process'')])\<rparr>, s))"
  by (auto simp add: handler_def io_defs py_get_def process_message_no_keys)

theorem malformed_body_response_witness:
  "handler demo_world (JObj [(''body'', JStr ''{not json'')]) demo_store =
     (\<lparr>statusCode = 500, headers = [(''Content-Type'', ''application/json'')],
       body = demo_dumps (JObj [(''ok'', JBool False), (''error'', JStr ''JSONDecodeError'')])\<rparr>,
      demo_store)
   \<and> handler demo_world (JObj [(''body'', JObj [(''update_id'', JInt 1)])]) demo_store =
     (\<lparr>statusCode = 200, headers = [(''Content-Type'', ''application/json'')],
       body = demo_dumps (JObj [(''ok'', JBool True),
                                (''message'', JStr ''No message to process'')])\<rparr>,
      demo_store)"
proof -
  have l: "json_loads demo_world ''{not json'' = Inl (Failure ''JSONDecodeError'')"
    by (simp add: demo_world_def demo_loads_def demo_agents_def demo_state_def
          demo_state_no_agent_def)
  have d: "json_dumps demo_world = demo_dumps" by (simp add: demo_world_def)
  show ?thesis
    using malformed_body_response
        [where w = demo_world and s = demo_store and event = "[(''body'', JStr ''{not json'')]"
           and t = "''{not json''" and e = "Failure ''JSONDecodeError''"]
      malformed_body_response
        [where w = demo_world and s = demo_store
           and event = "[(''body'', JObj [(''update_id'', JInt 1)])]"
           and update = "[(''update_id'', JInt 1)]"]
      l
    by (simp add: d str_of_exn_def)
qed

theorem invalid_json_body_counterexample:
  "statusCode (fst (handler demo_world (JObj [(''body'', JStr ''{not json'')]) demo_store)) = 500"
  by (simp add: handler_def io_defs py_get_def demo_world_def demo_loads_def demo_agents_def
        demo_state_def demo_state_no_agent_def)

section \<open>Callbacks without a chat or without data\<close>

text \<open>
  Claim C3 fails on the code. A callback query that has an id but no message (as the
  callbacks of inline messages have none) runs into the first return of
  \<open>handle_callback_query\<close>: the result is that of an invalid callback, and no call at all
  is made, so the callback is never acknowledged.
\<close>

theorem invalid_callback_not_acknowledged:
  "handle_callback_query demo_world
     (JObj [(''id'', JStr ''cb1''), (''data'', JStr ''agent:a2'')]) demo_store =
     (Inr (JObj [(''ok'', JBool True), (''message'', JStr ''Invalid callback'')]), demo_store)
   \<and> filter is_acknowledgement
        (new_calls demo_store
           (snd (handle_callback_query demo_world
                   (JObj [(''id'', JStr ''cb1''), (''data'', JStr ''agent:a2'')]) demo_store))) = []"
  by (simp add: handle_callback_query_def io_defs py_get_def new_calls_def)

theorem invalid_callback_not_acknowledged_witness:
  "length (filter is_acknowledgement
     (new_calls demo_store
        (snd (handle_callback_query demo_world
                (JObj [(''id'', JStr ''cb1''), (''data'', JStr ''agent:a2'')]) demo_store)))) = 0"
  using invalid_callback_not_acknowledged [THEN conjunct2] by simp

end
